theory Spec2Isabelle
  imports Complex_Main "HOL-Library.Multiset"
begin

section \<open>The ranking and classification engine of PulseCompass\<close>

text \<open>
  A shallow embedding of \<^verbatim>\<open>backend/routers/ranking.py\<close>,
  \<^verbatim>\<open>backend/utils/investment_tiers.py\<close> and
  \<^verbatim>\<open>backend/utils/sector_adjustments.py\<close>.

  Conventions of the embedding.
  \<^item> Python floats are idealised as real numbers: every comparison and every arithmetic
    operation of the source is exact here.
  \<^item> A row handed to the scoring functions is a \<^verbatim>\<open>pd.Series\<close>: the test
    \<^verbatim>\<open>'k' in row\<close> asks whether the label \<^verbatim>\<open>k\<close> exists, and
    \<^verbatim>\<open>row['k']\<close> reads it. The numeric part of a row is a map from metric names to
    values; \<open>None\<close> is an absent label. Inside \<^verbatim>\<open>analyze_rankings\<close> every numeric
    column has been filled before a row reaches these functions, so no NaN is read.
  \<^item> A Python \<^verbatim>\<open>dict\<close> whose order or values are read back is an association list in
    insertion order.
  \<^item> Module-level values that come from outside the source files (the bank and NBFC mapping
    file, the outcome of the optional imports, Python's number formatting) are fields of an
    environment record.
\<close>

subsection \<open>Python strings\<close>

definition lower_char :: "char \<Rightarrow> char" where
  "lower_char c =
     (case map_of (zip ''ABCDEFGHIJKLMNOPQRSTUVWXYZ'' ''abcdefghijklmnopqrstuvwxyz'') c of
        Some d \<Rightarrow> d
      | None \<Rightarrow> c)"

text \<open>\<^verbatim>\<open>str.lower()\<close>, on ASCII letters.\<close>

definition lower :: "string \<Rightarrow> string" where
  "lower s = map lower_char s"

definition is_space :: "char \<Rightarrow> bool" where
  "is_space c = (c \<in> set [CHR '' '', CHR 0x09, CHR 0x0A, CHR 0x0B, CHR 0x0C, CHR 0x0D])"

text \<open>\<^verbatim>\<open>str.strip()\<close>.\<close>

definition strip :: "string \<Rightarrow> string" where
  "strip s = rev (dropWhile is_space (rev (dropWhile is_space s)))"

fun starts_with :: "string \<Rightarrow> string \<Rightarrow> bool" where
  "starts_with s [] = True"
| "starts_with [] (k # ks) = False"
| "starts_with (c # cs) (k # ks) = (c = k \<and> starts_with cs ks)"

text \<open>\<^verbatim>\<open>kw in s\<close> for two strings: \<open>kw\<close> occurs in \<open>s\<close> as a contiguous substring.\<close>

fun str_in :: "string \<Rightarrow> string \<Rightarrow> bool" where
  "str_in kw [] = (kw = [])"
| "str_in kw (c # cs) = (starts_with (c # cs) kw \<or> str_in kw cs)"

text \<open>\<^verbatim>\<open>any(kw in s for kw in kws)\<close>.\<close>

definition any_in :: "string list \<Rightarrow> string \<Rightarrow> bool" where
  "any_in kws s = list_ex (\<lambda>kw. str_in kw s) kws"

subsection \<open>Rows and the environment\<close>

record row =
  name :: "string option"
  symbol :: "string option"
  metrics :: "string \<Rightarrow> real option"

text \<open>\<^verbatim>\<open>str(row.get(k, ''))\<close> for the two text labels.\<close>

definition str_get :: "string option \<Rightarrow> string" where
  "str_get v = (case v of Some s \<Rightarrow> s | None \<Rightarrow> [])"

text \<open>\<^verbatim>\<open>row.get(k, d)\<close> for a metric.\<close>

definition get :: "row \<Rightarrow> string \<Rightarrow> real \<Rightarrow> real" where
  "get r k d = (case metrics r k of Some v \<Rightarrow> v | None \<Rightarrow> d)"

record env =
  FINANCIALS_SYMBOLS :: "string list"
  FINANCIALS_NAMES :: "string list"
  SECTOR_ENABLED :: bool
  TIERS_ENABLED :: bool
  fmt :: "nat \<Rightarrow> real \<Rightarrow> string"

text \<open>
  \<open>FINANCIALS_SYMBOLS\<close> and \<open>FINANCIALS_NAMES\<close> are the two sets read from
  \<^verbatim>\<open>data/nbfc_bank.json\<close> (empty when the file is missing); \<open>SECTOR_ENABLED\<close> and
  \<open>TIERS_ENABLED\<close> record whether the optional imports succeeded; \<open>fmt d x\<close> is Python's
  \<^verbatim>\<open>format(x, '.df')\<close>.
\<close>

subsection \<open>Sector detection (sector\_adjustments.py, ranking.py)\<close>

definition industry_keywords :: "(string \<times> string list) list" where
  "industry_keywords =
    [(''IT'', [''tech'', ''software'', ''infotech'', ''systems'', ''solutions'', ''technologies'']),
     (''Banking'', [''bank'', ''finance'', ''nbfc'', ''financial'', ''capital'', ''securities'']),
     (''Pharma'', [''pharma'', ''drug'', ''biotech'', ''healthcare'', ''medical'', ''lab'']),
     (''Manufacturing'', [''industries'', ''manufacturing'', ''steel'', ''cement'', ''chemicals'']),
     (''Telecom'', [''telecom'', ''communications'', ''wireless'', ''broadband'']),
     (''RealEstate'', [''realty'', ''properties'', ''construction'', ''builders'']),
     (''FMCG'', [''consumer'', ''foods'', ''beverages'', ''fmcg'']),
     (''Auto'', [''auto'', ''motors'', ''vehicles'', ''automotive'']),
     (''Energy'', [''power'', ''energy'', ''oil'', ''gas'', ''petroleum''])]"

fun first_sector :: "(string \<times> string list) list \<Rightarrow> string \<Rightarrow> string" where
  "first_sector [] company_lower = ''General''"
| "first_sector ((sector, keywords) # rest) company_lower =
     (if any_in keywords company_lower then sector else first_sector rest company_lower)"

definition get_sector_from_name :: "string \<Rightarrow> string" where
  "get_sector_from_name company_name = first_sector industry_keywords (lower company_name)"

definition is_financials :: "env \<Rightarrow> row \<Rightarrow> bool" where
  "is_financials e r =
    (let sym = lower (strip (str_get (symbol r)));
         nm = lower (strip (str_get (name r)))
     in if sym \<noteq> [] \<and> sym \<in> set (FINANCIALS_SYMBOLS e) then True
        else if nm \<noteq> [] \<and> nm \<in> set (FINANCIALS_NAMES e) then True
        else if SECTOR_ENABLED e \<and>
                (case name r of
                   None \<Rightarrow> False
                 | Some n \<Rightarrow>
                     (let sector = get_sector_from_name n
                      in sector \<noteq> [] \<and>
                         any_in [''bank'', ''nbfc'', ''finance'', ''financial'', ''insurance'',
                                 ''hfc'', ''housing finance'', ''brokerage''] (lower sector)))
             then True
        else any_in ['' bank'', ''bank '', ''nbfc'', ''finance'', ''finserv'', ''fin. '',
                     ''fintech'', ''lending'', ''microfinance'', ''nbfcs'', ''housing finance'',
                     ''hfc'', ''insurance'', ''mfi''] (lower (str_get (name r))))"

subsection \<open>Investment tiers (investment\_tiers.py)\<close>

definition classify_investment_tier :: "row \<Rightarrow> nat \<times> string \<times> string" where
  "classify_investment_tier r =
    (let roe = get r ''roe'' 0;
         roce = get r ''roce'' 0;
         pe_ratio = get r ''pe_ratio'' 999;
         fcf = get r ''fcf'' 0;
         debt_equity = get r ''debt_equity'' 999;
         profit_growth = get r ''profit_growth_3yr'' 0
     in if roe > 20 \<and> roce > 20 \<and> pe_ratio < 25 \<and> fcf > 500 \<and> debt_equity < 0.5
          then (1, ''CORE PORTFOLIO'', ''BUY / HOLD 5+ years'')
        else if roe > 15 \<and> roce > 15 \<and> pe_ratio < 35 \<and> fcf > 100 \<and> debt_equity < 1.0
          then (2, ''QUALITY ADDITIONS'', ''HOLD / BUY on dips'')
        else if (roe > 12 \<or> (fcf > 1000 \<and> profit_growth > 0)) \<and> debt_equity < 1.5
          then (3, ''SPECIALIZED PLAYS'', ''HOLD / RESEARCH'')
        else (4, ''AVOID'', ''EXCLUDE from portfolio''))"

subsection \<open>Quality assessors (ranking.py)\<close>

text \<open>\<^verbatim>\<open>'k' in row and P(row['k'])\<close>.\<close>

definition has :: "row \<Rightarrow> string \<Rightarrow> (real \<Rightarrow> bool) \<Rightarrow> bool" where
  "has r k P = (case metrics r k of Some v \<Rightarrow> P v | None \<Rightarrow> False)"

definition flag :: "bool \<Rightarrow> nat" where
  "flag b = (if b then 1 else 0)"

definition assess_quality_score :: "row \<Rightarrow> real" where
  "assess_quality_score r =
    (let red_flags = flag (has r ''roe'' (\<lambda>v. v < 5))
                   + flag (has r ''debt_equity'' (\<lambda>v. v > 2))
                   + flag (has r ''fcf'' (\<lambda>v. v < - 100));
         yellow_flags = flag (has r ''roe'' (\<lambda>v. 5 \<le> v \<and> v < 12))
                      + flag (has r ''peg'' (\<lambda>v. v > 2))
                      + flag (has r ''debt_equity'' (\<lambda>v. 1.0 < v \<and> v \<le> 1.5));
         quality_score = 1.0 - real red_flags * 0.15 - real yellow_flags * 0.05;
         quality_score =
           (case metrics r ''roe'' of
              Some roe \<Rightarrow>
                if roe > 10 then quality_score * (1 + min ((roe - 10) / 40) 0.6)
                else quality_score
            | None \<Rightarrow> quality_score)
     in max 0.5 (min 1.5 quality_score))"

definition assess_cash_flow_quality :: "row \<Rightarrow> real" where
  "assess_cash_flow_quality r =
    (let quality = 1.0;
         quality =
           (if has r ''fcf'' (\<lambda>v. v > 0) then
              (let fcf = get r ''fcf'' 0;
                   quality = quality + 0.05;
                   quality =
                     (case metrics r ''pat'' of
                        Some pat \<Rightarrow>
                          if pat > 0 then
                            (let fcf_to_profit = fcf / pat
                             in if fcf_to_profit > 0.8 then quality + 0.10
                                else if fcf_to_profit > 0.5 then quality + 0.05
                                else quality)
                          else quality
                      | None \<Rightarrow> quality);
                   quality =
                     (case (metrics r ''fcf_3yr'', metrics r ''fcf_5yr'') of
                        (Some fcf_3yr, Some fcf_5yr) \<Rightarrow>
                          if fcf_3yr > 0 \<and> fcf_5yr > 0 then quality + 0.05 else quality
                      | _ \<Rightarrow> quality)
               in quality)
            else quality - 0.10);
         quality = (if has r ''asset_turnover'' (\<lambda>v. v > 1.0) then quality + 0.05 else quality)
     in max 0.7 (min 1.2 quality))"

text \<open>
  \<^verbatim>\<open>assess_valuation_reasonableness\<close> returns a dict with the two keys
  \<^verbatim>\<open>'score'\<close> and \<^verbatim>\<open>'warnings'\<close>: a pair here.
\<close>

definition assess_valuation_reasonableness :: "row \<Rightarrow> real \<times> string list" where
  "assess_valuation_reasonableness r =
    (let sw = (1.0, []);
         sw =
           (case (metrics r ''pe_ratio'', metrics r ''profit_growth_3yr'') of
              (Some pe, Some growth) \<Rightarrow>
                if growth > 0 then
                  (let implied_peg = pe / growth
                   in if implied_peg < 0.5 then (fst sw + 0.15, snd sw)
                      else if implied_peg < 1.0 then (fst sw + 0.10, snd sw)
                      else if implied_peg > 3.0
                        then (fst sw - 0.20, snd sw @ [''High valuation vs growth (PEG > 3)''])
                      else if implied_peg > 2.0
                        then (fst sw - 0.10, snd sw @ [''Elevated valuation vs growth (PEG > 2)''])
                      else sw)
                else sw
            | _ \<Rightarrow> sw);
         sw =
           (case (metrics r ''pe_ratio'', metrics r ''roe'') of
              (Some pe, Some roe) \<Rightarrow>
                if roe > 25 \<and> pe < 30 then (fst sw + 0.10, snd sw)
                else if roe < 15 \<and> pe > 25
                  then (fst sw - 0.15, snd sw @ [''High P/E without strong ROE''])
                else sw
            | _ \<Rightarrow> sw);
         sw =
           (case (metrics r ''fcf'', metrics r ''market_cap'') of
              (Some fcf, Some market_cap) \<Rightarrow>
                if market_cap > 0 then
                  (let fcf_yield = (fcf / market_cap) * 100
                   in if fcf_yield > 8 then (fst sw + 0.10, snd sw)
                      else if fcf_yield > 5 then (fst sw + 0.05, snd sw)
                      else if fcf_yield < 0
                        then (fst sw - 0.15, snd sw @ [''Negative FCF yield''])
                      else sw)
                else sw
            | _ \<Rightarrow> sw);
         sw =
           (case (metrics r ''cmp_sales'', metrics r ''opm'') of
              (Some cmp_sales, Some opm) \<Rightarrow>
                if cmp_sales > 10 \<and> opm < 15
                  then (fst sw - 0.10, snd sw @ [''High Price/Sales without strong margins''])
                else sw
            | _ \<Rightarrow> sw)
     in (max 0.6 (min 1.3 (fst sw)), snd sw))"

subsection \<open>Risk penalties (ranking.py)\<close>

text \<open>
  \<^verbatim>\<open>d[k] = v\<close> on a dict in insertion order: an existing key keeps its place, a new key
  goes to the end.
\<close>

primrec dict_set :: "string \<Rightarrow> real \<Rightarrow> (string \<times> real) list \<Rightarrow> (string \<times> real) list" where
  "dict_set k v [] = [(k, v)]"
| "dict_set k v (p # ps) = (if fst p = k then (k, v) # ps else p # dict_set k v ps)"

text \<open>
  \<^verbatim>\<open>calculate_risk_penalties\<close> fills one dict block by block. Each block of the source is
  one function on the dict here, named after the comment that heads it; the function itself
  is their composition in the order of the source.
\<close>

definition pen_negative_fcf :: "bool \<Rightarrow> row \<Rightarrow> (string \<times> real) list \<Rightarrow> (string \<times> real) list" where
  "pen_negative_fcf is_fin r penalties =
    (if has r ''fcf'' (\<lambda>v. v < 0) then
       (if \<not> is_fin then dict_set ''negative_fcf'' 0.40 penalties
        else dict_set ''negative_fcf'' 0.10 penalties)
     else penalties)"

definition pen_extreme_pe :: "row \<Rightarrow> (string \<times> real) list \<Rightarrow> (string \<times> real) list" where
  "pen_extreme_pe r penalties =
    (case metrics r ''pe_ratio'' of
       Some pe \<Rightarrow>
         if pe > 100 then dict_set ''extreme_pe'' 0.25 penalties
         else if pe > 50 then dict_set ''high_pe'' 0.15 penalties
         else penalties
     | None \<Rightarrow> penalties)"

definition pen_high_debt :: "bool \<Rightarrow> row \<Rightarrow> (string \<times> real) list \<Rightarrow> (string \<times> real) list" where
  "pen_high_debt is_fin r penalties =
    (case metrics r ''debt_equity'' of
       Some de \<Rightarrow>
         if \<not> is_fin then
           (if de > 1.5 then dict_set ''high_debt'' 0.20 penalties
            else if de > 1.0 then dict_set ''moderate_debt'' 0.10 penalties
            else penalties)
         else
           (if de > 5.0 then dict_set ''high_debt'' 0.15 penalties
            else if de > 3.0 then dict_set ''moderate_debt'' 0.05 penalties
            else penalties)
     | None \<Rightarrow> penalties)"

definition pen_poor_profitability :: "row \<Rightarrow> (string \<times> real) list \<Rightarrow> (string \<times> real) list" where
  "pen_poor_profitability r penalties =
    (case metrics r ''roe'' of
       Some roe \<Rightarrow>
         if roe < 8 then dict_set ''very_low_roe'' 0.30 penalties
         else if roe < 10 then dict_set ''low_roe'' 0.20 penalties
         else if roe < 12 then dict_set ''moderate_roe'' 0.10 penalties
         else penalties
     | None \<Rightarrow> penalties)"

definition pen_roce :: "row \<Rightarrow> (string \<times> real) list \<Rightarrow> (string \<times> real) list" where
  "pen_roce r penalties =
    (case metrics r ''roce'' of
       Some roce \<Rightarrow>
         if roce < 12 then dict_set ''low_roce'' 0.10 penalties
         else if roce < 15 then dict_set ''moderate_roce'' 0.05 penalties
         else penalties
     | None \<Rightarrow> penalties)"

definition pen_high_peg :: "row \<Rightarrow> (string \<times> real) list \<Rightarrow> (string \<times> real) list" where
  "pen_high_peg r penalties =
    (if has r ''peg'' (\<lambda>v. v > 2) then dict_set ''high_peg'' 0.10 penalties else penalties)"

definition pen_low_roe_high_fcf :: "row \<Rightarrow> (string \<times> real) list \<Rightarrow> (string \<times> real) list" where
  "pen_low_roe_high_fcf r penalties =
    (case (metrics r ''roe'', metrics r ''fcf'', metrics r ''profit_growth_3yr'') of
       (Some roe, Some fcf, Some growth) \<Rightarrow>
         if roe < 8 \<and> growth < 0 then
           (if fcf > 1000 \<and> get r ''debt_equity'' 1.0 < 0.3
              then dict_set ''low_roe_high_fcf'' 0.20 penalties
            else dict_set ''low_roe_negative_growth'' 0.50 penalties)
         else penalties
     | _ \<Rightarrow> penalties)"

definition pen_low_fcf_relative :: "bool \<Rightarrow> row \<Rightarrow> (string \<times> real) list \<Rightarrow> (string \<times> real) list" where
  "pen_low_fcf_relative is_fin r penalties =
    (case (metrics r ''fcf'', metrics r ''market_cap'') of
       (Some fcf, Some market_cap) \<Rightarrow>
         if \<not> is_fin \<and> 0 < fcf \<and> fcf < 100 \<and> market_cap > 1000
           then dict_set ''low_fcf_relative'' 0.10 penalties
         else penalties
     | _ \<Rightarrow> penalties)"

definition pen_moderate_pe :: "row \<Rightarrow> (string \<times> real) list \<Rightarrow> (string \<times> real) list" where
  "pen_moderate_pe r penalties =
    (if has r ''pe_ratio'' (\<lambda>v. 25 < v \<and> v \<le> 50)
       then dict_set ''moderate_pe'' 0.05 penalties
     else penalties)"

text \<open>The list \<^verbatim>\<open>red_flags\<close> of the compound penalty.\<close>

definition red_flags :: "bool \<Rightarrow> row \<Rightarrow> string list" where
  "red_flags is_fin r =
    (if get r ''roe'' 100 < 10 then [''low_roe''] else []) @
    (if get r ''profit_growth_3yr'' 100 < 0 then [''negative_growth''] else []) @
    (if \<not> is_fin \<and> get r ''fcf'' 1000 < 100 \<and> get r ''market_cap'' 0 > 1000
       then [''low_fcf''] else []) @
    (if get r ''debt_equity'' 0 > 1.0 then [''high_debt''] else [])"

definition pen_multiple_red_flags :: "bool \<Rightarrow> row \<Rightarrow> (string \<times> real) list \<Rightarrow> (string \<times> real) list" where
  "pen_multiple_red_flags is_fin r penalties =
    (if length (red_flags is_fin r) \<ge> 2
       then dict_set ''multiple_red_flags'' (0.10 * real (length (red_flags is_fin r))) penalties
     else penalties)"

definition pen_volatility :: "row \<Rightarrow> (string \<times> real) list \<Rightarrow> (string \<times> real) list" where
  "pen_volatility r penalties =
    (if has r ''return_1yr'' (\<lambda>v. \<bar>v\<bar> > 1000)
       then dict_set ''extreme_volatility'' 0.20 penalties
     else if has r ''return_1yr'' (\<lambda>v. \<bar>v\<bar> > 500)
       then dict_set ''high_volatility'' 0.10 penalties
     else penalties)"

definition calculate_risk_penalties :: "env \<Rightarrow> row \<Rightarrow> string \<Rightarrow> (string \<times> real) list" where
  "calculate_risk_penalties e r fcf_dq_mode =
    (let is_fin = is_financials e r
     in pen_volatility r
       (pen_multiple_red_flags is_fin r
       (pen_moderate_pe r
       (pen_low_fcf_relative is_fin r
       (pen_low_roe_high_fcf r
       (pen_high_peg r
       (pen_roce r
       (pen_poor_profitability r
       (pen_high_debt is_fin r
       (pen_extreme_pe r
       (pen_negative_fcf is_fin r [])))))))))))"

subsection \<open>The disqualification gate (ranking.py)\<close>

text \<open>The UTF-8 bytes of the rupee sign that one of the messages contains twice.\<close>

definition rupee :: string where
  "rupee = [CHR 0xE2, CHR 0x82, CHR 0xB9]"

definition should_disqualify :: "env \<Rightarrow> row \<Rightarrow> string \<Rightarrow> bool \<times> string" where
  "should_disqualify e r fcf_dq_mode =
    (let is_fin = is_financials e r;
         apply_fcf_dq_for_fin = (fcf_dq_mode = ''global_on'');
         apply_fcf_dq_for_nonfin = (fcf_dq_mode \<in> set [''financials_only_off'', ''global_on'']);
         gate = ((is_fin \<and> apply_fcf_dq_for_fin) \<or> (\<not> is_fin \<and> apply_fcf_dq_for_nonfin))
     in if has r ''fcf'' (\<lambda>v. v < - 500) \<and> gate then
          (True, ''Massive cash burn: FCF '' @ fmt e 0 (get r ''fcf'' 0) @ '' Cr (unsustainable)'')
        else if has r ''pe_ratio'' (\<lambda>v. v > 100) then
          (True, ''Extreme P/E ratio: '' @ fmt e 1 (get r ''pe_ratio'' 0) @ '' (speculative valuation)'')
        else if has r ''pe_ratio'' (\<lambda>v. v > 500) then
          (True, ''Absurd P/E ratio: '' @ fmt e 1 (get r ''pe_ratio'' 0) @ '' (likely data error)'')
        else if has r ''fcf'' (\<lambda>fcf. has r ''debt_equity'' (\<lambda>de. fcf < - 100 \<and> de > 2.0)) \<and> gate then
          (True, ''Negative FCF with very high debt (bankruptcy risk)'')
        else if has r ''roe'' (\<lambda>v. v < 0) then
          (True, ''Negative ROE: '' @ fmt e 1 (get r ''roe'' 0) @ ''% (unprofitable)'')
        else if has r ''fcf'' (\<lambda>fcf. has r ''market_cap'' (\<lambda>market_cap.
                  0 < fcf \<and> fcf < 10 \<and> market_cap > 1000 \<and> (fcf / market_cap) * 100 < 0.5)) \<and> gate then
          (True, ''Minimal FCF ('' @ rupee @ fmt e 1 (get r ''fcf'' 0) @ '' Cr) for '' @ rupee @
                 fmt e 0 (get r ''market_cap'' 0) @ '' Cr market cap (speculative)'')
        else if has r ''return_1yr'' (\<lambda>ret. has r ''fcf'' (\<lambda>fcf. has r ''roe'' (\<lambda>roe.
                  \<bar>ret\<bar> > 2000 \<and> fcf < 0 \<and> roe < 15))) then
          (True, ''Extreme volatility with poor fundamentals (speculative)'')
        else (False, ''''))"

subsection \<open>Philosophies and the composite score (ranking.py)\<close>

record philosophy =
  display_name :: string
  weights :: "(string \<times> real) list"
  description :: string

definition PHILOSOPHIES :: "(string \<times> philosophy) list" where
  "PHILOSOPHIES =
    [(''buffett'', \<lparr>display_name = ''Warren Buffett'',
        weights = [(''fcf'', 0.28), (''roe'', 0.20), (''roce'', 0.16), (''pe_ratio'', 0.08),
                   (''debt_equity'', 0.14), (''opm'', 0.10), (''profit_growth_3yr'', 0.03),
                   (''sales_growth_5yr'', 0.01)],
        description = ''Focus on quality companies with strong ROE, low debt, excellent cash flow, and reasonable valuations''\<rparr>),
     (''lynch'', \<lparr>display_name = ''Peter Lynch'',
        weights = [(''peg'', 0.25), (''profit_growth_3yr'', 0.18), (''eps_growth_3yr'', 0.15),
                   (''roe'', 0.12), (''fcf'', 0.12), (''roce'', 0.08), (''debt_equity'', 0.08),
                   (''pe_ratio'', 0.02)],
        description = ''Growth at reasonable price (PEG < 1) with strong earnings momentum and cash generation''\<rparr>),
     (''growth'', \<lparr>display_name = ''Growth Investing'',
        weights = [(''profit_growth_5yr'', 0.22), (''sales_growth_5yr'', 0.18),
                   (''eps_growth_3yr'', 0.15), (''roce'', 0.15), (''fcf'', 0.12), (''roe'', 0.10),
                   (''opm'', 0.08)],
        description = ''High growth companies with strong revenue expansion and sustainable cash generation''\<rparr>),
     (''value'', \<lparr>display_name = ''Value Investing'',
        weights = [(''pe_ratio'', 0.28), (''debt_equity'', 0.20), (''fcf'', 0.18), (''roe'', 0.14),
                   (''roce'', 0.12), (''dividend_yield'', 0.05), (''profit_growth_3yr'', 0.03)],
        description = ''Undervalued companies (low P/E) with strong fundamentals, low debt, and positive cash flow''\<rparr>),
     (''dividend'', \<lparr>display_name = ''Dividend Focus'',
        weights = [(''dividend_yield'', 0.28), (''fcf'', 0.25), (''roe'', 0.15),
                   (''debt_equity'', 0.15), (''roce'', 0.10), (''opm'', 0.07)],
        description = ''High dividend yield backed by strong cash generation and low debt''\<rparr>),
     (''quality'', \<lparr>display_name = ''Quality at Fair Price'',
        weights = [(''fcf'', 0.30), (''roe'', 0.18), (''roce'', 0.15), (''pe_ratio'', 0.15),
                   (''debt_equity'', 0.12), (''opm'', 0.08), (''profit_growth_3yr'', 0.02)],
        description = ''High-quality businesses (strong FCF, ROE, ROCE) at reasonable valuations with low debt''\<rparr>)]"

text \<open>
  \<^verbatim>\<open>round(x, 1)\<close> on an exact value: the nearest multiple of one tenth, a tie going to the
  even one.
\<close>

definition round_half_even :: "real \<Rightarrow> int" where
  "round_half_even x =
    (let f = \<lfloor>x\<rfloor>; d = x - of_int f
     in if d < 1 / 2 then f
        else if d > 1 / 2 then f + 1
        else if even f then f else f + 1)"

definition py_round1 :: "real \<Rightarrow> real" where
  "py_round1 x = of_int (round_half_even (x * 10)) / 10"

text \<open>
  \<^verbatim>\<open>calculate_composite_score\<close> reads the row of \<^verbatim>\<open>normalized_df\<close> that has the label
  of its first argument (\<^verbatim>\<open>normalized_df.loc[row.name, metric]\<close>); that row is the
  argument \<open>normalized\<close>, a map from the columns of \<^verbatim>\<open>normalized_df\<close> to scores, so that
  \<^verbatim>\<open>metric in normalized_df.columns\<close> is \<open>normalized metric \<noteq> None\<close>.
\<close>

definition calculate_composite_score ::
    "env \<Rightarrow> row \<Rightarrow> (string \<times> real) list \<Rightarrow> (string \<Rightarrow> real option) \<Rightarrow> string \<Rightarrow> real" where
  "calculate_composite_score e r ws normalized fcf_dq_mode =
    (let score = fold (\<lambda>(metric, weight) score.
                    case normalized metric of
                      Some n \<Rightarrow> score + n * weight
                    | None \<Rightarrow> score) ws 0.0;
         quality_multiplier = assess_quality_score r;
         score = score * quality_multiplier;
         cf_quality = assess_cash_flow_quality r;
         score = score * cf_quality;
         valuation_assessment = assess_valuation_reasonableness r;
         score = score * fst valuation_assessment;
         penalties = calculate_risk_penalties e r fcf_dq_mode;
         total_penalty = sum_list (map snd penalties);
         score = score * (1 - min total_penalty 0.6)
     in py_round1 score)"

subsection \<open>Normalisation (ranking.py)\<close>

text \<open>
  The first argument of \<^verbatim>\<open>normalize_score\<close> may be NaN, which \<^verbatim>\<open>pd.isna\<close> detects:
  \<open>None\<close> here. Its last parameter is \<^verbatim>\<open>inverse\<close> in the source; that name is taken in
  HOL, so it is \<open>lower_is_better\<close> here.
\<close>

definition normalize_score :: "real option \<Rightarrow> real \<Rightarrow> real \<Rightarrow> bool \<Rightarrow> real" where
  "normalize_score v min_val max_val lower_is_better =
    (case v of
       None \<Rightarrow> 50.0
     | Some x \<Rightarrow>
         if max_val = min_val then 50.0
         else
           (let normalized =
                  (if lower_is_better then 100 - ((x - min_val) / (max_val - min_val) * 100)
                   else ((x - min_val) / (max_val - min_val) * 100))
            in max 0 (min 100 normalized)))"

definition numeric_cols :: "string list" where
  "numeric_cols =
    [''cmp'', ''market_cap'', ''pe_ratio'', ''roe'', ''roce'',
     ''sales_growth_3yr'', ''sales_growth_5yr'', ''sales'', ''pat'',
     ''profit_growth_3yr'', ''profit_growth_5yr'',
     ''fcf_3yr'', ''fcf_5yr'', ''fcf'', ''peg'',
     ''return_1yr'', ''return_3yr'', ''return_5yr'',
     ''asset_turnover'', ''cmp_sales'', ''eps'',
     ''eps_growth_3yr'', ''eps_growth_5yr'',
     ''debt_equity'', ''opm'', ''dividend_yield'',
     ''npm'', ''interest_coverage'', ''current_ratio'', ''pb_ratio'', ''ev_ebitda'',
     ''dividend_payout'', ''fcf_yield_inverse'', ''pledged_pct'', ''promoter_holding'']"

definition inverse_metrics :: "string list" where
  "inverse_metrics =
    [''debt_equity'', ''pe_ratio'', ''peg'', ''cmp_sales'', ''pb_ratio'', ''ev_ebitda'',
     ''fcf_yield_inverse'', ''pledged_pct'']"

text \<open>
  A column after \<^verbatim>\<open>pd.to_numeric(..., errors='coerce')\<close> is a list of optional values,
  \<open>None\<close> for NaN. \<^verbatim>\<open>Series.median()\<close> skips NaN: the middle value of the sorted
  present values, or the mean of the two middle ones.
\<close>

definition present :: "real option list \<Rightarrow> real list" where
  "present col = [x. Some x \<leftarrow> col]"

definition median :: "real list \<Rightarrow> real" where
  "median xs =
    (let s = sort xs; n = length s
     in if n mod 2 = 1 then s ! (n div 2)
        else (s ! (n div 2 - 1) + s ! (n div 2)) / 2)"

text \<open>
  \<^verbatim>\<open>fill_value = df[col].median() if not df[col].isna().all() else 0\<close>, then
  \<^verbatim>\<open>df[col].fillna(fill_value, inplace=True)\<close>, which is taken to fill the column of the
  table itself (as it does when pandas runs without copy-on-write). The median is asked for
  only when a value is present.
\<close>

definition fill_value :: "real option list \<Rightarrow> real" where
  "fill_value col = (if present col \<noteq> [] then median (present col) else 0)"

definition fillna :: "real option list \<Rightarrow> real list" where
  "fillna col = map (\<lambda>c. case c of Some x \<Rightarrow> x | None \<Rightarrow> fill_value col) col"

text \<open>
  One column of \<^verbatim>\<open>normalized_df\<close>, from the filled column:
  \<^verbatim>\<open>df[col].apply(lambda x: normalize_score(x, df[col].min(), df[col].max(), inverse))\<close>.
  It is built only when the column has a value (\<^verbatim>\<open>df[col].notna().any()\<close>), so the
  minimum and the maximum exist; the empty column is mapped to itself.
\<close>

definition normalize_column :: "bool \<Rightarrow> real list \<Rightarrow> real list" where
  "normalize_column lower_is_better xs =
    (if xs = [] then []
     else map (\<lambda>x. normalize_score (Some x) (Min (set xs)) (Max (set xs)) lower_is_better) xs)"

subsection \<open>Sector adjustment (sector\_adjustments.py)\<close>

text \<open>
  An entry of \<^verbatim>\<open>SECTOR_BENCHMARKS\<close>, with the keys that \<^verbatim>\<open>adjust_score_for_sector\<close>
  reads. A key that an entry does not have, or whose value is \<^verbatim>\<open>None\<close>, is \<open>None\<close>.
\<close>

record benchmark =
  sector_name :: string
  roe_threshold :: real
  roce_threshold :: "real option"
  debt_equity_norm :: real
  opm_norm :: real
  debt_penalty_multiplier :: "real option"
  fcf_weight_multiplier :: "real option"

definition SECTOR_BENCHMARKS :: "(string \<times> benchmark) list" where
  "SECTOR_BENCHMARKS =
    [(''IT'', \<lparr>sector_name = ''Information Technology'', roe_threshold = 20.0,
        roce_threshold = Some 25.0, debt_equity_norm = 0.5, opm_norm = 20.0,
        debt_penalty_multiplier = Some 1.5, fcf_weight_multiplier = Some 1.3\<rparr>),
     (''Banking'', \<lparr>sector_name = ''Banking & Financial Services'', roe_threshold = 12.0,
        roce_threshold = None, debt_equity_norm = 5.0, opm_norm = 40.0,
        debt_penalty_multiplier = Some 0.1, fcf_weight_multiplier = None\<rparr>),
     (''Pharma'', \<lparr>sector_name = ''Pharmaceuticals'', roe_threshold = 15.0,
        roce_threshold = Some 18.0, debt_equity_norm = 0.8, opm_norm = 20.0,
        debt_penalty_multiplier = None, fcf_weight_multiplier = None\<rparr>),
     (''Manufacturing'', \<lparr>sector_name = ''Manufacturing'', roe_threshold = 12.0,
        roce_threshold = Some 15.0, debt_equity_norm = 1.5, opm_norm = 10.0,
        debt_penalty_multiplier = None, fcf_weight_multiplier = None\<rparr>),
     (''Telecom'', \<lparr>sector_name = ''Telecommunications'', roe_threshold = 8.0,
        roce_threshold = Some 10.0, debt_equity_norm = 2.5, opm_norm = 30.0,
        debt_penalty_multiplier = None, fcf_weight_multiplier = None\<rparr>),
     (''RealEstate'', \<lparr>sector_name = ''Real Estate'', roe_threshold = 8.0,
        roce_threshold = Some 10.0, debt_equity_norm = 2.0, opm_norm = 25.0,
        debt_penalty_multiplier = None, fcf_weight_multiplier = None\<rparr>),
     (''FMCG'', \<lparr>sector_name = ''Fast Moving Consumer Goods'', roe_threshold = 18.0,
        roce_threshold = Some 25.0, debt_equity_norm = 0.5, opm_norm = 15.0,
        debt_penalty_multiplier = None, fcf_weight_multiplier = None\<rparr>),
     (''Auto'', \<lparr>sector_name = ''Automobile'', roe_threshold = 12.0,
        roce_threshold = Some 15.0, debt_equity_norm = 1.2, opm_norm = 8.0,
        debt_penalty_multiplier = None, fcf_weight_multiplier = None\<rparr>),
     (''Energy'', \<lparr>sector_name = ''Energy & Power'', roe_threshold = 10.0,
        roce_threshold = Some 12.0, debt_equity_norm = 2.0, opm_norm = 12.0,
        debt_penalty_multiplier = None, fcf_weight_multiplier = None\<rparr>),
     (''Healthcare'', \<lparr>sector_name = ''Healthcare Services'', roe_threshold = 15.0,
        roce_threshold = Some 18.0, debt_equity_norm = 1.0, opm_norm = 18.0,
        debt_penalty_multiplier = None, fcf_weight_multiplier = None\<rparr>)]"

text \<open>
  \<^verbatim>\<open>adjust_score_for_sector\<close> returns a dict; the pair here holds its
  \<^verbatim>\<open>'adjusted_score'\<close> and \<^verbatim>\<open>'sector_adjustment'\<close>. The insight strings are left out.
  The block on the debt penalty rescales an entry of the dict \<^verbatim>\<open>penalties\<close> that the
  caller has just built and does not read again, and adds an insight; it changes neither
  number, so the argument \<^verbatim>\<open>penalties\<close> is left out with it.
\<close>

definition adjust_score_for_sector :: "real \<Rightarrow> row \<Rightarrow> string \<Rightarrow> real \<times> real" where
  "adjust_score_for_sector base_score company_data sector =
    (case map_of SECTOR_BENCHMARKS sector of
       None \<Rightarrow> (base_score, 0.0)
     | Some benchmarks \<Rightarrow>
         (let adjustment_multiplier = 1.0;
              adjustment_multiplier =
                (case (metrics company_data ''fcf'', fcf_weight_multiplier benchmarks) of
                   (Some fcf, Some fwm) \<Rightarrow>
                     if fcf > 0 then adjustment_multiplier + (fwm - 1.0) * 0.05
                     else adjustment_multiplier
                 | _ \<Rightarrow> adjustment_multiplier);
              adjustment_multiplier =
                (case metrics company_data ''roe'' of
                   Some roe \<Rightarrow>
                     if roe > roe_threshold benchmarks then
                       adjustment_multiplier +
                         min ((roe - roe_threshold benchmarks) / roe_threshold benchmarks * 0.1) 0.15
                     else adjustment_multiplier
                 | None \<Rightarrow> adjustment_multiplier);
              adjustment_multiplier =
                (if has company_data ''opm'' (\<lambda>opm. opm > opm_norm benchmarks * 1.2)
                   then adjustment_multiplier + 0.05
                 else adjustment_multiplier)
          in (py_round1 (base_score * adjustment_multiplier),
              py_round1 ((adjustment_multiplier - 1.0) * 100))))"

subsection \<open>The orchestrator (analyze\_rankings in ranking.py)\<close>

text \<open>
  The table that \<^verbatim>\<open>analyze_rankings\<close> works on, after the uploaded file has been read and
  its columns renamed: the numeric column labels that exist, and per row the name, the symbol
  and the cells as \<^verbatim>\<open>pd.to_numeric(..., errors='coerce')\<close> leaves them (\<open>None\<close> is NaN).
  Columns outside \<^verbatim>\<open>numeric_cols\<close> are not part of it: no function reads them.
\<close>

record raw_row =
  raw_name :: string
  raw_symbol :: string
  cells :: "string \<Rightarrow> real option"

record dataframe =
  columns :: "string list"
  rows :: "raw_row list"

text \<open>What reading the upload and renaming its columns (lines 584 to 697) ended with.\<close>

datatype upload = Unreadable | NameColumnMissing | Parsed dataframe

datatype error =
    InvalidPhilosophy string
  | InvalidFcfDQMode string
  | ErrorReadingFile
  | MissingNameColumn
  | UnhandledException

text \<open>
  The first four are the \<^verbatim>\<open>HTTPException(status_code=400, ...)\<close> of the source, in the
  order in which it raises them; the last is an exception that no handler of the function
  catches.
\<close>

definition column :: "dataframe \<Rightarrow> string \<Rightarrow> real option list" where
  "column df col = map (\<lambda>r. cells r col) (rows df)"

text \<open>A column is converted, filled and later normalised when it is listed and exists.\<close>

definition is_numeric_col :: "dataframe \<Rightarrow> string \<Rightarrow> bool" where
  "is_numeric_col df col = (col \<in> set numeric_cols \<and> col \<in> set (columns df))"

text \<open>The row with label \<open>i\<close> of the table after the numeric columns have been filled.\<close>

definition filled_row :: "dataframe \<Rightarrow> nat \<Rightarrow> row" where
  "filled_row df i =
    \<lparr>name = Some (raw_name (rows df ! i)),
     symbol = Some (raw_symbol (rows df ! i)),
     metrics = (\<lambda>col. if is_numeric_col df col then Some (fillna (column df col) ! i) else None)\<rparr>"

text \<open>The row with label \<open>i\<close> of \<^verbatim>\<open>normalized_df\<close>.\<close>

definition normalized_row :: "dataframe \<Rightarrow> nat \<Rightarrow> string \<Rightarrow> real option" where
  "normalized_row df i col =
    (if is_numeric_col df col \<and> rows df \<noteq> []
       then Some (normalize_column (col \<in> set inverse_metrics) (fillna (column df col)) ! i)
     else None)"

text \<open>
  A row of the working table: its label in the uploaded table, its data, and the column
  \<^verbatim>\<open>composite_score\<close>.
\<close>

record scored =
  idx :: nat
  data :: row
  composite_score :: real

definition score_rows :: "env \<Rightarrow> dataframe \<Rightarrow> (string \<times> real) list \<Rightarrow> string \<Rightarrow> scored list" where
  "score_rows e df ws fcfDQMode =
    map (\<lambda>i. \<lparr>idx = i, data = filled_row df i,
               composite_score =
                 calculate_composite_score e (filled_row df i) ws (normalized_row df i) fcfDQMode\<rparr>)
        [0 ..< length (rows df)]"

text \<open>The loop over \<^verbatim>\<open>df.iterrows()\<close> that fills \<^verbatim>\<open>disqualified_companies\<close>.\<close>

definition disqualified_companies :: "env \<Rightarrow> string \<Rightarrow> scored list \<Rightarrow> (string \<times> string) list" where
  "disqualified_companies e fcfDQMode df =
    map (\<lambda>s. (str_get (name (data s)), snd (should_disqualify e (data s) fcfDQMode)))
        (filter (\<lambda>s. fst (should_disqualify e (data s) fcfDQMode)) df)"

text \<open>\<^verbatim>\<open>df = df[df['disqualified'] == False].copy()\<close>.\<close>

definition not_disqualified :: "env \<Rightarrow> string \<Rightarrow> scored list \<Rightarrow> scored list" where
  "not_disqualified e fcfDQMode df =
    filter (\<lambda>s. \<not> fst (should_disqualify e (data s) fcfDQMode)) df"

definition sector_of :: "env \<Rightarrow> row \<Rightarrow> string" where
  "sector_of e r = (if SECTOR_ENABLED e then get_sector_from_name (str_get (name r)) else ''General'')"

definition apply_sector_adjustments :: "env \<Rightarrow> scored list \<Rightarrow> scored list" where
  "apply_sector_adjustments e df =
    (if SECTOR_ENABLED e then
       map (\<lambda>s. s\<lparr>composite_score :=
                    fst (adjust_score_for_sector (composite_score s) (data s)
                           (get_sector_from_name (str_get (name (data s)))))\<rparr>) df
     else df)"

definition tier_of :: "env \<Rightarrow> row \<Rightarrow> nat \<times> string \<times> string" where
  "tier_of e r =
    (if TIERS_ENABLED e then classify_investment_tier r
     else (3, ''Not Classified'', ''Research Required''))"

text \<open>
  The working table when it is sorted: scored, filtered, sector-adjusted, then
  \<^verbatim>\<open>df.sort_values('composite_score', ascending=False)\<close>. The sort is a function of pandas,
  called with the default \<^verbatim>\<open>kind='quicksort'\<close>: it is the parameter \<open>sort_values\<close>.
\<close>

definition ranked_frame ::
    "(scored list \<Rightarrow> scored list) \<Rightarrow> env \<Rightarrow> dataframe \<Rightarrow> (string \<times> real) list \<Rightarrow> string \<Rightarrow> scored list" where
  "ranked_frame sort_values e df ws fcfDQMode =
    sort_values (apply_sector_adjustments e (not_disqualified e fcfDQMode (score_rows e df ws fcfDQMode)))"

record ranking =
  rank :: nat
  company :: string
  symbol_of :: string
  compositeScore :: real
  riskWarnings :: "string list"
  qualityScore :: real
  cashFlowQuality :: real
  valuationScore :: real
  valuationWarnings :: "string list"
  sector :: string
  investmentTier :: nat
  investmentTierName :: string
  investmentTierAction :: string
  isFinancialsDetected :: bool

text \<open>
  One element of \<^verbatim>\<open>rankings\<close>. \<open>riskWarnings\<close> holds the keys of the penalty dict, before
  the source replaces each by its display text. The other philosophies' scores, the V2
  sub-scores, the key drivers, the insight and reason texts and the raw metrics of an element
  are left out.
\<close>

definition ranking_of :: "env \<Rightarrow> string \<Rightarrow> nat \<times> scored \<Rightarrow> ranking" where
  "ranking_of e fcfDQMode p =
    (case p of (n, s) \<Rightarrow>
      \<lparr>rank = n,
       company = str_get (name (data s)),
       symbol_of = str_get (symbol (data s)),
       compositeScore = composite_score s,
       riskWarnings = map fst (calculate_risk_penalties e (data s) fcfDQMode),
       qualityScore = assess_quality_score (data s),
       cashFlowQuality = assess_cash_flow_quality (data s),
       valuationScore = fst (assess_valuation_reasonableness (data s)),
       valuationWarnings = snd (assess_valuation_reasonableness (data s)),
       sector = sector_of e (data s),
       investmentTier = fst (tier_of e (data s)),
       investmentTierName = fst (snd (tier_of e (data s))),
       investmentTierAction = snd (snd (tier_of e (data s))),
       isFinancialsDetected = is_financials e (data s)\<rparr>)"

record report =
  rankings :: "ranking list"
  philosophy_id :: string
  philosophyDescription :: string
  totalCompanies :: nat
  disqualifiedCount :: nat
  disqualifiedCompanies :: "(string \<times> string) list"
  sectorEnabled :: bool
  tiersEnabled :: bool
  fcfDQMode_of :: string

definition valid_modes :: "string list" where
  "valid_modes = [''financials_only_off'', ''global_off'', ''global_on'']"

text \<open>
  The columns that \<^verbatim>\<open>get_tier_summary\<close> reads without a guard
  (\<^verbatim>\<open>tier_df['roe'].mean()\<close> and so on) for every tier that has a row.
\<close>

definition tier_summary_columns :: "string list" where
  "tier_summary_columns = [''roe'', ''roce'', ''pe_ratio'', ''fcf'', ''debt_equity'']"

text \<open>
  \<^verbatim>\<open>analyze_rankings\<close>. The two checks of the request come first, before the file is read.
  With the tiers enabled, two exceptions of the tier stage are caught by nothing and end the
  request without a report:
  \<^item> when no row is left after the filter, \<^verbatim>\<open>classify_all_companies\<close> reads column 0
    of an empty result (\<^verbatim>\<open>tier_data[0]\<close>, a KeyError), and
    \<^verbatim>\<open>get_portfolio_recommendation\<close> would divide by the number of classified rows
    (\<^verbatim>\<open>investable/total*100\<close>);
  \<^item> when a row is left, one of the four tiers has a row, and \<^verbatim>\<open>get_tier_summary\<close>
    reads the five columns above: a KeyError when the table lacks one of them.

  The tier statistics and the recommendation text are left out of the report, and so is the
  snapshot that the function tries to save.
\<close>

definition analyze_rankings ::
    "(scored list \<Rightarrow> scored list) \<Rightarrow> env \<Rightarrow> upload \<Rightarrow> string \<Rightarrow> string \<Rightarrow> error + report" where
  "analyze_rankings sort_values e file philosophy fcfDQMode =
    (case map_of PHILOSOPHIES philosophy of
       None \<Rightarrow> Inl (InvalidPhilosophy philosophy)
     | Some phil \<Rightarrow>
         if fcfDQMode \<notin> set valid_modes then Inl (InvalidFcfDQMode fcfDQMode)
         else
           (case file of
              Unreadable \<Rightarrow> Inl ErrorReadingFile
            | NameColumnMissing \<Rightarrow> Inl MissingNameColumn
            | Parsed df \<Rightarrow>
                (let all_rows = score_rows e df (weights phil) fcfDQMode;
                     disqualified = disqualified_companies e fcfDQMode all_rows;
                     ranked = ranked_frame sort_values e df (weights phil) fcfDQMode
                 in if TIERS_ENABLED e \<and>
                       (ranked = [] \<or> \<not> set tier_summary_columns \<subseteq> set (columns df))
                      then Inl UnhandledException
                    else Inr
                      \<lparr>rankings = map (ranking_of e fcfDQMode)
                                    (zip [1 ..< Suc (length ranked)] (take 50 ranked)),
                       philosophy_id = philosophy,
                       philosophyDescription = description phil,
                       totalCompanies = length ranked,
                       disqualifiedCount = length disqualified,
                       disqualifiedCompanies = disqualified,
                       sectorEnabled = SECTOR_ENABLED e,
                       tiersEnabled = TIERS_ENABLED e,
                       fcfDQMode_of = fcfDQMode\<rparr>)))"

subsection \<open>The normaliser as the specification words it\<close>

text \<open>
  Stated from the specification's words, for comparison with \<open>normalize_column\<close>; no function
  of the engine computes it. The rank of a present value is its position among the present
  values, counted from the worst one, a tied group sharing the mean of its positions; the
  score is \<open>rank / max_rank * 100\<close>; a missing value scores 0; when all present values are equal
  each scores 50.
\<close>

definition spec_average_rank :: "bool \<Rightarrow> real list \<Rightarrow> real \<Rightarrow> real" where
  "spec_average_rank lower_is_better xs v =
    real (length (filter (\<lambda>x. if lower_is_better then v < x else x < v) xs))
      + (real (length (filter (\<lambda>x. x = v) xs)) + 1) / 2"

definition spec_rank_percentile :: "bool \<Rightarrow> real option list \<Rightarrow> real list" where
  "spec_rank_percentile lower_is_better col =
    (let xs = present col;
         max_rank = Max (set (map (spec_average_rank lower_is_better xs) xs))
     in map (\<lambda>c. case c of
                   None \<Rightarrow> 0
                 | Some v \<Rightarrow>
                     if Min (set xs) = Max (set xs) then 50
                     else spec_average_rank lower_is_better xs v / max_rank * 100) col)"

subsection \<open>Example data\<close>

text \<open>
  An environment without the mapping file and with the optional imports available; it prints
  every number as a hash sign.
\<close>

definition example_env :: env where
  "example_env =
    \<lparr>FINANCIALS_SYMBOLS = [], FINANCIALS_NAMES = [], SECTOR_ENABLED = True,
     TIERS_ENABLED = True, fmt = (\<lambda>d x. ''#'')\<rparr>"

text \<open>A row whose symbol is its name, as the orchestrator sets it when no symbol column exists.\<close>

definition mk_row :: "string \<Rightarrow> (string \<times> real) list \<Rightarrow> row" where
  "mk_row n ms = \<lparr>name = Some n, symbol = Some n, metrics = map_of ms\<rparr>"

definition mk_raw :: "string \<Rightarrow> (string \<times> real) list \<Rightarrow> raw_row" where
  "mk_raw n ms = \<lparr>raw_name = n, raw_symbol = n, cells = map_of ms\<rparr>"

text \<open>The three companies of the scenario in the specification's test section.\<close>

definition example_df :: dataframe where
  "example_df =
    \<lparr>columns = [''roe'', ''roce'', ''pe_ratio'', ''fcf'', ''debt_equity''],
     rows =
       [mk_raw ''Alpha Ltd'' [(''roe'', 25), (''roce'', 22), (''pe_ratio'', 18), (''fcf'', 800),
                              (''debt_equity'', 0.3)],
        mk_raw ''Beta Ltd'' [(''roe'', 9), (''roce'', 8), (''pe_ratio'', 40), (''fcf'', - 600),
                             (''debt_equity'', 2.2)],
        mk_raw ''Gamma Ltd'' [(''roe'', 16), (''roce'', 17), (''pe_ratio'', 30), (''fcf'', 150),
                              (''debt_equity'', 0.8)]]\<rparr>"

text \<open>A table whose only row burns cash, and a table with the five tier columns and gaps.\<close>

definition burning_df :: dataframe where
  "burning_df =
    \<lparr>columns = [''roe'', ''roce'', ''pe_ratio'', ''fcf'', ''debt_equity''],
     rows =
       [mk_raw ''Beta Ltd'' [(''roe'', 9), (''roce'', 8), (''pe_ratio'', 40), (''fcf'', - 600),
                             (''debt_equity'', 2.2)]]\<rparr>"


text \<open>A sort that meets the contract of \<^verbatim>\<open>sort_values\<close>: descending by score.\<close>

definition example_sort :: "scored list \<Rightarrow> scored list" where
  "example_sort df = sort_key (\<lambda>s. - composite_score s) df"

section \<open>Properties\<close>

subsection \<open>Sector detection on the example names\<close>

lemmas string_eval =
  str_get_def strip_def is_space_def get_sector_from_name_def industry_keywords_def
  lower_def lower_char_def any_in_def

lemma is_financials_bank: "is_financials example_env (mk_row ''HDFC Bank Ltd'' ms)"
  by (simp add: is_financials_def example_env_def mk_row_def string_eval)

lemma is_financials_steel: "\<not> is_financials example_env (mk_row ''Tata Steel'' ms)"
  by (simp add: is_financials_def example_env_def mk_row_def string_eval)

subsection \<open>Tier classification\<close>

lemma get_gt: "0 \<le> c \<Longrightarrow> (c < get r k 0) = has r k (\<lambda>v. c < v)"
  by (simp add: get_def has_def split: option.splits)

lemma get_lt: "c \<le> 999 \<Longrightarrow> (get r k 999 < c) = has r k (\<lambda>v. v < c)"
  by (simp add: get_def has_def split: option.splits)

lemma tier_number:
  "fst (classify_investment_tier r) =
    (if has r ''roe'' (\<lambda>v. v > 20) \<and> has r ''roce'' (\<lambda>v. v > 20) \<and> has r ''pe_ratio'' (\<lambda>v. v < 25)
        \<and> has r ''fcf'' (\<lambda>v. v > 500) \<and> has r ''debt_equity'' (\<lambda>v. v < 0.5) then 1
     else if has r ''roe'' (\<lambda>v. v > 15) \<and> has r ''roce'' (\<lambda>v. v > 15) \<and> has r ''pe_ratio'' (\<lambda>v. v < 35)
        \<and> has r ''fcf'' (\<lambda>v. v > 100) \<and> has r ''debt_equity'' (\<lambda>v. v < 1.0) then 2
     else if (has r ''roe'' (\<lambda>v. v > 12) \<or> (has r ''fcf'' (\<lambda>v. v > 1000) \<and> has r ''profit_growth_3yr'' (\<lambda>v. v > 0)))
        \<and> has r ''debt_equity'' (\<lambda>v. v < 1.5) then 3
     else 4)"
proof -
  have a: "(20 < get r ''roe'' 0) = has r ''roe'' (\<lambda>v. v > 20)"
          "(20 < get r ''roce'' 0) = has r ''roce'' (\<lambda>v. v > 20)"
          "(get r ''pe_ratio'' 999 < 25) = has r ''pe_ratio'' (\<lambda>v. v < 25)"
          "(500 < get r ''fcf'' 0) = has r ''fcf'' (\<lambda>v. v > 500)"
          "(get r ''debt_equity'' 999 < 0.5) = has r ''debt_equity'' (\<lambda>v. v < 0.5)"
    by (rule get_gt get_lt, simp)+
  have b: "(15 < get r ''roe'' 0) = has r ''roe'' (\<lambda>v. v > 15)"
          "(15 < get r ''roce'' 0) = has r ''roce'' (\<lambda>v. v > 15)"
          "(get r ''pe_ratio'' 999 < 35) = has r ''pe_ratio'' (\<lambda>v. v < 35)"
          "(100 < get r ''fcf'' 0) = has r ''fcf'' (\<lambda>v. v > 100)"
          "(get r ''debt_equity'' 999 < 1.0) = has r ''debt_equity'' (\<lambda>v. v < 1.0)"
    by (rule get_gt get_lt, simp)+
  have c: "(12 < get r ''roe'' 0) = has r ''roe'' (\<lambda>v. v > 12)"
          "(1000 < get r ''fcf'' 0) = has r ''fcf'' (\<lambda>v. v > 1000)"
          "(0 < get r ''profit_growth_3yr'' 0) = has r ''profit_growth_3yr'' (\<lambda>v. v > 0)"
          "(get r ''debt_equity'' 999 < 1.5) = has r ''debt_equity'' (\<lambda>v. v < 1.5)"
    by (rule get_gt get_lt, simp)+
  show ?thesis
    unfolding classify_investment_tier_def Let_def a b c
    by (simp only: if_distrib[of fst] fst_conv)
qed

lemma tier_reads_six_metrics:
  assumes "\<forall>k \<in> set [''roe'', ''roce'', ''pe_ratio'', ''fcf'', ''debt_equity'', ''profit_growth_3yr''].
             metrics r k = metrics r' k"
  shows "classify_investment_tier r = classify_investment_tier r'"
proof -
  have "get r k d = get r' k d"
    if "k \<in> set [''roe'', ''roce'', ''pe_ratio'', ''fcf'', ''debt_equity'', ''profit_growth_3yr'']"
    for k d
    using assms that by (auto simp: get_def)
  then show ?thesis
    by (simp add: classify_investment_tier_def)
qed

text \<open>
  C4. The tier of a row is decided by absolute thresholds, tried from the top, the first
  match winning: tier 1 iff ROE > 20, ROCE > 20, P/E < 25, FCF > 500 and D/E < 0.5; otherwise
  tier 2 iff ROE > 15, ROCE > 15, P/E < 35, FCF > 100 and D/E < 1.0; otherwise tier 3 iff
  (ROE > 12 or (FCF > 1000 and profit growth > 0)) and D/E < 1.5; otherwise tier 4. A
  comparison on a metric that the row does not have is false. The classification reads the six
  metrics and nothing else: two rows that agree on them get the same tier, name and action,
  whatever their names (hence sectors), their other columns (the composite score among them)
  and the philosophy of the request.
\<close>

theorem classify_investment_tier_thresholds:
  "fst (classify_investment_tier r) =
    (if has r ''roe'' (\<lambda>v. v > 20) \<and> has r ''roce'' (\<lambda>v. v > 20) \<and> has r ''pe_ratio'' (\<lambda>v. v < 25)
        \<and> has r ''fcf'' (\<lambda>v. v > 500) \<and> has r ''debt_equity'' (\<lambda>v. v < 0.5) then 1
     else if has r ''roe'' (\<lambda>v. v > 15) \<and> has r ''roce'' (\<lambda>v. v > 15) \<and> has r ''pe_ratio'' (\<lambda>v. v < 35)
        \<and> has r ''fcf'' (\<lambda>v. v > 100) \<and> has r ''debt_equity'' (\<lambda>v. v < 1.0) then 2
     else if (has r ''roe'' (\<lambda>v. v > 12) \<or> (has r ''fcf'' (\<lambda>v. v > 1000) \<and> has r ''profit_growth_3yr'' (\<lambda>v. v > 0)))
        \<and> has r ''debt_equity'' (\<lambda>v. v < 1.5) then 3
     else 4)
   \<and> ((\<forall>k \<in> set [''roe'', ''roce'', ''pe_ratio'', ''fcf'', ''debt_equity'', ''profit_growth_3yr''].
          metrics r k = metrics r' k)
        \<longrightarrow> classify_investment_tier r = classify_investment_tier r')"
  using tier_number tier_reads_six_metrics by blast

theorem classify_investment_tier_thresholds_witness:
  "fst (classify_investment_tier
         (mk_row ''Alpha Ltd'' [(''roe'', 25), (''roce'', 22), (''pe_ratio'', 18), (''fcf'', 800),
                                (''debt_equity'', 0.3)])) = 1
   \<and> classify_investment_tier
         (mk_row ''Alpha Ltd'' [(''roe'', 25), (''roce'', 22), (''pe_ratio'', 18), (''fcf'', 800),
                                (''debt_equity'', 0.3)])
     = classify_investment_tier
         (mk_row ''Omega Bank'' [(''opm'', 3), (''roe'', 25), (''roce'', 22), (''pe_ratio'', 18),
                                 (''fcf'', 800), (''debt_equity'', 0.3), (''peg'', 7)])"
proof -
  note t = classify_investment_tier_thresholds
          [of "mk_row ''Alpha Ltd'' [(''roe'', 25), (''roce'', 22), (''pe_ratio'', 18), (''fcf'', 800),
                                (''debt_equity'', 0.3)]"
              "mk_row ''Omega Bank'' [(''opm'', 3), (''roe'', 25), (''roce'', 22), (''pe_ratio'', 18),
                                 (''fcf'', 800), (''debt_equity'', 0.3), (''peg'', 7)]"]
  from t[THEN conjunct1] have tier: "fst (classify_investment_tier
         (mk_row ''Alpha Ltd'' [(''roe'', 25), (''roce'', 22), (''pe_ratio'', 18), (''fcf'', 800),
                                (''debt_equity'', 0.3)])) = 1"
    by (simp add: mk_row_def has_def)
  have "\<forall>k \<in> set [''roe'', ''roce'', ''pe_ratio'', ''fcf'', ''debt_equity'', ''profit_growth_3yr''].
          metrics (mk_row ''Alpha Ltd'' [(''roe'', 25), (''roce'', 22), (''pe_ratio'', 18), (''fcf'', 800),
                                (''debt_equity'', 0.3)]) k
          = metrics (mk_row ''Omega Bank'' [(''opm'', 3), (''roe'', 25), (''roce'', 22), (''pe_ratio'', 18),
                                 (''fcf'', 800), (''debt_equity'', 0.3), (''peg'', 7)]) k"
    by (simp add: mk_row_def)
  with t[THEN conjunct2] have same: "classify_investment_tier
         (mk_row ''Alpha Ltd'' [(''roe'', 25), (''roce'', 22), (''pe_ratio'', 18), (''fcf'', 800),
                                (''debt_equity'', 0.3)])
     = classify_investment_tier
         (mk_row ''Omega Bank'' [(''opm'', 3), (''roe'', 25), (''roce'', 22), (''pe_ratio'', 18),
                                 (''fcf'', 800), (''debt_equity'', 0.3), (''peg'', 7)])"
    by (rule mp)
  from tier same show ?thesis by (rule conjI)
qed

subsection \<open>The disqualification gate\<close>

text \<open>
  C10. The gate never returns the reason that begins with "Absurd P/E ratio": a row with a P/E
  above 500 has a P/E above 100, and the rule for that comes first, so such a row is
  disqualified with the extreme-P/E reason (or, before it, with the cash-burn reason).
\<close>

theorem absurd_pe_reason_unreachable:
  "\<not> starts_with (snd (should_disqualify e r fcf_dq_mode)) ''Absurd P/E ratio''
   \<and> (has r ''pe_ratio'' (\<lambda>v. v > 500) \<longrightarrow>
        fst (should_disqualify e r fcf_dq_mode) \<and>
        (starts_with (snd (should_disqualify e r fcf_dq_mode)) ''Extreme P/E ratio''
         \<or> starts_with (snd (should_disqualify e r fcf_dq_mode)) ''Massive cash burn''))"
  by (simp add: should_disqualify_def Let_def has_def split: option.splits)

theorem absurd_pe_reason_unreachable_witness:
  "has (mk_row ''Tata Steel'' [(''pe_ratio'', 600)]) ''pe_ratio'' (\<lambda>v. v > 500)
   \<and> should_disqualify example_env (mk_row ''Tata Steel'' [(''pe_ratio'', 600)]) ''financials_only_off''
      = (True, ''Extreme P/E ratio: # (speculative valuation)'')"
  using absurd_pe_reason_unreachable
          [of example_env "mk_row ''Tata Steel'' [(''pe_ratio'', 600)]" "''financials_only_off''"]
  by (simp add: should_disqualify_def Let_def has_def get_def mk_row_def example_env_def)

subsection \<open>Risk penalties\<close>

text \<open>
  C9. The penalty dict of a row is the same for every value of the mode argument, the three
  valid ones among them: the function never reads it.
\<close>

theorem penalties_ignore_dq_mode:
  "calculate_risk_penalties e r mode1 = calculate_risk_penalties e r mode2"
  by (simp add: calculate_risk_penalties_def)

text \<open>
  On a row that burns cash the two modes global_on and global_off give the same penalties,
  while the gate, which does read the mode, disqualifies the row in the first and not in the
  second.
\<close>

theorem penalties_ignore_dq_mode_witness:
  "calculate_risk_penalties example_env (mk_row ''Tata Steel'' [(''fcf'', - 600)]) ''global_on''
     = calculate_risk_penalties example_env (mk_row ''Tata Steel'' [(''fcf'', - 600)]) ''global_off''
   \<and> fst (should_disqualify example_env (mk_row ''Tata Steel'' [(''fcf'', - 600)]) ''global_on'')
   \<and> \<not> fst (should_disqualify example_env (mk_row ''Tata Steel'' [(''fcf'', - 600)]) ''global_off'')"
proof -
  have "fst (should_disqualify example_env (mk_row ''Tata Steel'' [(''fcf'', - 600)]) ''global_on'')"
    and "\<not> fst (should_disqualify example_env (mk_row ''Tata Steel'' [(''fcf'', - 600)]) ''global_off'')"
    using is_financials_steel [of "[(''fcf'', - 600)]"]
    by (simp_all add: should_disqualify_def Let_def has_def mk_row_def)
  with penalties_ignore_dq_mode
         [of example_env "mk_row ''Tata Steel'' [(''fcf'', - 600)]" "''global_on''" "''global_off''"]
  show ?thesis by (intro conjI)
qed

subsection \<open>The bankruptcy-risk rule of the gate\<close>

text \<open>
  C5, as amended. For a row that is not a financial one, with FCF below -100 and
  debt-to-equity above 2.0, under the mode financials_only_off or global_on, the gate returns
  true; the reason is the bankruptcy-risk reason when the FCF is not below -500 and the row has
  no P/E above 100 (otherwise one of the two rules that come first, massive cash burn or
  extreme P/E, gives the reason).
\<close>

theorem bankruptcy_risk_rule:
  assumes "\<not> is_financials e r"
    and "fcf_dq_mode = ''financials_only_off'' \<or> fcf_dq_mode = ''global_on''"
    and "metrics r ''fcf'' = Some fcf" and "metrics r ''debt_equity'' = Some de"
    and "fcf < - 100" and "de > 2.0"
  shows "fst (should_disqualify e r fcf_dq_mode)
         \<and> (- 500 \<le> fcf \<and> \<not> has r ''pe_ratio'' (\<lambda>v. v > 100) \<longrightarrow>
              should_disqualify e r fcf_dq_mode
                = (True, ''Negative FCF with very high debt (bankruptcy risk)''))"
  using assms by (auto simp: should_disqualify_def Let_def has_def split: option.splits)

theorem bankruptcy_risk_rule_witness:
  "\<not> is_financials example_env (mk_row ''Tata Steel'' [(''fcf'', - 200), (''debt_equity'', 3)])
   \<and> should_disqualify example_env (mk_row ''Tata Steel'' [(''fcf'', - 200), (''debt_equity'', 3)])
        ''financials_only_off''
      = (True, ''Negative FCF with very high debt (bankruptcy risk)'')"
proof -
  have m: "metrics (mk_row ''Tata Steel'' [(''fcf'', - 200), (''debt_equity'', 3)]) ''fcf'' = Some (- 200)"
          "metrics (mk_row ''Tata Steel'' [(''fcf'', - 200), (''debt_equity'', 3)]) ''debt_equity'' = Some 3"
          "\<not> has (mk_row ''Tata Steel'' [(''fcf'', - 200), (''debt_equity'', 3)]) ''pe_ratio'' (\<lambda>v. v > 100)"
    by (simp_all add: mk_row_def has_def)
  from bankruptcy_risk_rule [OF is_financials_steel _ m(1) m(2), of "''financials_only_off''"] m(3)
  show ?thesis
    using is_financials_steel by simp
qed

text \<open>
  The claim as it is worded fails twice: a negative FCF that is not below -100 does not
  disqualify, and an FCF below -500 disqualifies with the cash-burn reason.
\<close>

theorem bankruptcy_risk_rule_counterexample:
  "\<not> is_financials example_env (mk_row ''Tata Steel'' [(''fcf'', - 50), (''debt_equity'', 3)])
   \<and> get (mk_row ''Tata Steel'' [(''fcf'', - 50), (''debt_equity'', 3)]) ''fcf'' 0 < 0
   \<and> get (mk_row ''Tata Steel'' [(''fcf'', - 50), (''debt_equity'', 3)]) ''debt_equity'' 0 > 2.0
   \<and> should_disqualify example_env (mk_row ''Tata Steel'' [(''fcf'', - 50), (''debt_equity'', 3)])
        ''financials_only_off'' = (False, '''')
   \<and> should_disqualify example_env (mk_row ''Tata Steel'' [(''fcf'', - 600), (''debt_equity'', 3)])
        ''financials_only_off'' = (True, ''Massive cash burn: FCF # Cr (unsustainable)'')"
  using is_financials_steel
  by (simp add: should_disqualify_def Let_def has_def get_def)
     (simp add: mk_row_def example_env_def)

subsection \<open>The negative-FCF penalty\<close>

lemma map_of_dict_set: "map_of (dict_set k v d) k' = (if k' = k then Some v else map_of d k')"
  by (induction d) auto

lemma negative_fcf_kept:
  "map_of (pen_extreme_pe r d) ''negative_fcf'' = map_of d ''negative_fcf''"
  "map_of (pen_high_debt fin r d) ''negative_fcf'' = map_of d ''negative_fcf''"
  "map_of (pen_poor_profitability r d) ''negative_fcf'' = map_of d ''negative_fcf''"
  "map_of (pen_roce r d) ''negative_fcf'' = map_of d ''negative_fcf''"
  "map_of (pen_high_peg r d) ''negative_fcf'' = map_of d ''negative_fcf''"
  "map_of (pen_low_roe_high_fcf r d) ''negative_fcf'' = map_of d ''negative_fcf''"
  "map_of (pen_low_fcf_relative fin r d) ''negative_fcf'' = map_of d ''negative_fcf''"
  "map_of (pen_moderate_pe r d) ''negative_fcf'' = map_of d ''negative_fcf''"
  "map_of (pen_multiple_red_flags fin r d) ''negative_fcf'' = map_of d ''negative_fcf''"
  "map_of (pen_volatility r d) ''negative_fcf'' = map_of d ''negative_fcf''"
  by (simp_all add: pen_extreme_pe_def pen_high_debt_def pen_poor_profitability_def pen_roce_def
        pen_high_peg_def pen_low_roe_high_fcf_def pen_low_fcf_relative_def pen_moderate_pe_def
        pen_multiple_red_flags_def pen_volatility_def map_of_dict_set split: option.splits)

lemma negative_fcf_penalty:
  "map_of (calculate_risk_penalties e r fcf_dq_mode) ''negative_fcf'' =
     (if has r ''fcf'' (\<lambda>v. v < 0) then Some (if is_financials e r then 0.10 else 0.40) else None)"
  by (simp add: calculate_risk_penalties_def negative_fcf_kept pen_negative_fcf_def map_of_dict_set)

text \<open>
  C6. For a row with FCF below 0 the penalty dict holds a negative-FCF penalty of 0.40 when the
  row is not a financial one and of 0.10 when it is; so, of two rows with a negative FCF, the
  financial one gets the strictly smaller negative-FCF penalty, in every mode (the mode
  financials_only_off among them).
\<close>

theorem negative_fcf_penalty_by_sector:
  assumes "has r ''fcf'' (\<lambda>v. v < 0)"
  shows "map_of (calculate_risk_penalties e r fcf_dq_mode) ''negative_fcf''
           = Some (if is_financials e r then 0.10 else 0.40)
         \<and> (\<forall>r' p p'. has r' ''fcf'' (\<lambda>v. v < 0) \<and> is_financials e r \<and> \<not> is_financials e r'
              \<and> map_of (calculate_risk_penalties e r fcf_dq_mode) ''negative_fcf'' = Some p
              \<and> map_of (calculate_risk_penalties e r' fcf_dq_mode) ''negative_fcf'' = Some p'
              \<longrightarrow> p < p')"
  using assms by (auto simp: negative_fcf_penalty)

theorem negative_fcf_penalty_by_sector_witness:
  "map_of (calculate_risk_penalties example_env
             (mk_row ''HDFC Bank Ltd'' [(''fcf'', - 200), (''roe'', 14)]) ''financials_only_off'')
          ''negative_fcf'' = Some 0.10
   \<and> map_of (calculate_risk_penalties example_env
             (mk_row ''Tata Steel'' [(''fcf'', - 200), (''roe'', 14)]) ''financials_only_off'')
          ''negative_fcf'' = Some 0.40"
proof -
  have f: "has (mk_row ''HDFC Bank Ltd'' [(''fcf'', - 200), (''roe'', 14)]) ''fcf'' (\<lambda>v. v < 0)"
          "has (mk_row ''Tata Steel'' [(''fcf'', - 200), (''roe'', 14)]) ''fcf'' (\<lambda>v. v < 0)"
    by (simp_all add: mk_row_def has_def)
  from negative_fcf_penalty_by_sector [OF f(1), of example_env "''financials_only_off''"]
       negative_fcf_penalty_by_sector [OF f(2), of example_env "''financials_only_off''"]
  show ?thesis
    using is_financials_bank is_financials_steel by simp
qed

subsection \<open>The composite score\<close>

lemma round_half_even_close: "\<bar>of_int (round_half_even x) - x\<bar> \<le> 1 / 2"
proof -
  have "of_int \<lfloor>x\<rfloor> \<le> x" and "x < of_int \<lfloor>x\<rfloor> + 1"
    by linarith+
  then show ?thesis
    by (auto simp: round_half_even_def Let_def)
qed

lemma py_round1_close: "\<bar>py_round1 x - x\<bar> \<le> 1 / 20"
  using round_half_even_close [of "x * 10"] by (simp add: py_round1_def field_simps)

lemma py_round1_tenths: "\<exists>k::int. py_round1 x = of_int k / 10"
  by (auto simp: py_round1_def)

lemma weighted_sum_fold:
  "fold (\<lambda>(metric, weight) score.
           case normalized metric of Some n \<Rightarrow> score + n * weight | None \<Rightarrow> score) ws a
   = a + (\<Sum>(metric, weight) \<leftarrow> ws. case normalized metric of Some n \<Rightarrow> n * weight | None \<Rightarrow> 0)"
  by (induction ws arbitrary: a) (auto simp: algebra_simps split: option.splits)

lemma dict_set_nonneg:
  "list_all (\<lambda>p. 0 \<le> snd p) d \<Longrightarrow> 0 \<le> v \<Longrightarrow> list_all (\<lambda>p. 0 \<le> snd p) (dict_set k v d)"
  by (induction d) auto

lemma penalties_nonneg: "list_all (\<lambda>p. 0 \<le> snd p) (calculate_risk_penalties e r fcf_dq_mode)"
proof -
  have 1: "list_all (\<lambda>p. 0 \<le> snd p) (pen_negative_fcf fin r [])" for fin
    by (simp add: pen_negative_fcf_def)
  have 2: "list_all (\<lambda>p. 0 \<le> snd p) (pen_extreme_pe r d)"
      "list_all (\<lambda>p. 0 \<le> snd p) (pen_high_debt fin r d)"
      "list_all (\<lambda>p. 0 \<le> snd p) (pen_poor_profitability r d)"
      "list_all (\<lambda>p. 0 \<le> snd p) (pen_roce r d)"
      "list_all (\<lambda>p. 0 \<le> snd p) (pen_high_peg r d)"
      "list_all (\<lambda>p. 0 \<le> snd p) (pen_low_roe_high_fcf r d)"
      "list_all (\<lambda>p. 0 \<le> snd p) (pen_low_fcf_relative fin r d)"
      "list_all (\<lambda>p. 0 \<le> snd p) (pen_moderate_pe r d)"
      "list_all (\<lambda>p. 0 \<le> snd p) (pen_multiple_red_flags fin r d)"
      "list_all (\<lambda>p. 0 \<le> snd p) (pen_volatility r d)"
    if "list_all (\<lambda>p. 0 \<le> snd p) d" for d fin
    using that
    by (simp_all add: pen_extreme_pe_def pen_high_debt_def pen_poor_profitability_def pen_roce_def
          pen_high_peg_def pen_low_roe_high_fcf_def pen_low_fcf_relative_def pen_moderate_pe_def
          pen_multiple_red_flags_def pen_volatility_def dict_set_nonneg split: option.splits)
  show ?thesis
    unfolding calculate_risk_penalties_def Let_def
    by (intro 2 1)
qed

lemma total_penalty_nonneg: "0 \<le> sum_list (map snd (calculate_risk_penalties e r fcf_dq_mode))"
  using penalties_nonneg [of e r fcf_dq_mode]
  by (intro sum_list_nonneg) (auto simp: list_all_iff)

text \<open>
  C1. The composite score of a row is the sum, over the weights handed in (those of the chosen
  philosophy), of normalised score times weight for the metrics that were normalised, times
  the business-quality multiplier, the cash-flow-quality multiplier and the
  valuation-reasonableness multiplier, times one minus the smaller of the sum of the penalties
  and 0.6, rounded to one decimal. The penalty that enters lies between 0 and 0.6 however many
  penalties fire, so the last factor lies between 0.4 and 1; the result is a whole number of
  tenths, at most 0.05 away from the unrounded product.
\<close>

theorem composite_score_formula:
  fixes e r ws normalized fcf_dq_mode
  defines "total_penalty \<equiv> sum_list (map snd (calculate_risk_penalties e r fcf_dq_mode))"
  defines "product \<equiv>
      (\<Sum>(metric, weight) \<leftarrow> ws. case normalized metric of Some n \<Rightarrow> n * weight | None \<Rightarrow> 0)
        * assess_quality_score r
        * assess_cash_flow_quality r
        * fst (assess_valuation_reasonableness r)
        * (1 - min total_penalty 0.6)"
  shows "calculate_composite_score e r ws normalized fcf_dq_mode = py_round1 product
         \<and> 0 \<le> min total_penalty 0.6 \<and> min total_penalty 0.6 \<le> 0.6
         \<and> 0.4 \<le> 1 - min total_penalty 0.6 \<and> 1 - min total_penalty 0.6 \<le> 1
         \<and> (\<exists>k::int. calculate_composite_score e r ws normalized fcf_dq_mode = of_int k / 10)
         \<and> \<bar>calculate_composite_score e r ws normalized fcf_dq_mode - product\<bar> \<le> 1 / 20"
proof -
  have eq: "calculate_composite_score e r ws normalized fcf_dq_mode = py_round1 product"
    by (simp add: calculate_composite_score_def Let_def weighted_sum_fold product_def total_penalty_def)
  have "0 \<le> total_penalty"
    unfolding total_penalty_def by (rule total_penalty_nonneg)
  then have "0 \<le> min total_penalty 0.6" "min total_penalty 0.6 \<le> 0.6"
    by simp_all
  with eq show ?thesis
    using py_round1_tenths [of product] py_round1_close [of product] by simp
qed

theorem composite_score_formula_witness:
  "calculate_composite_score example_env (filled_row example_df 0)
      [(''fcf'', 0.28), (''roe'', 0.20), (''roce'', 0.16), (''pe_ratio'', 0.08),
       (''debt_equity'', 0.14), (''opm'', 0.10), (''profit_growth_3yr'', 0.03),
       (''sales_growth_5yr'', 0.01)]
      (normalized_row example_df 0) ''financials_only_off'' = 124.2"
  unfolding composite_score_formula
      [of example_env "filled_row example_df 0"
          "[(''fcf'', 0.28), (''roe'', 0.20), (''roce'', 0.16), (''pe_ratio'', 0.08),
            (''debt_equity'', 0.14), (''opm'', 0.10), (''profit_growth_3yr'', 0.03),
            (''sales_growth_5yr'', 0.01)]"
          "normalized_row example_df 0" "''financials_only_off''", THEN conjunct1]
  by code_simp

subsection \<open>Normalisation\<close>

lemma length_fillna: "length (fillna col) = length col"
  by (simp add: fillna_def)

lemma nth_fillna:
  "i < length col \<Longrightarrow> fillna col ! i = (case col ! i of Some x \<Rightarrow> x | None \<Rightarrow> fill_value col)"
  by (simp add: fillna_def)

lemma normalize_score_in_column:
  assumes "x \<in> set xs"
  shows "normalize_score (Some x) (Min (set xs)) (Max (set xs)) lower_is_better =
          (if Min (set xs) = Max (set xs) then 50
           else if lower_is_better
             then 100 - (x - Min (set xs)) / (Max (set xs) - Min (set xs)) * 100
           else (x - Min (set xs)) / (Max (set xs) - Min (set xs)) * 100)"
    and "0 \<le> normalize_score (Some x) (Min (set xs)) (Max (set xs)) lower_is_better"
    and "normalize_score (Some x) (Min (set xs)) (Max (set xs)) lower_is_better \<le> 100"
proof -
  let ?lo = "Min (set xs)" and ?hi = "Max (set xs)"
  have lo: "?lo \<le> x" and hi: "x \<le> ?hi"
    using assms by simp_all
  show "normalize_score (Some x) ?lo ?hi lower_is_better =
          (if ?lo = ?hi then 50
           else if lower_is_better then 100 - (x - ?lo) / (?hi - ?lo) * 100
           else (x - ?lo) / (?hi - ?lo) * 100)"
  proof (cases "?lo = ?hi")
    case True
    then show ?thesis by (simp add: normalize_score_def)
  next
    case False
    with lo hi have pos: "0 < ?hi - ?lo" by simp
    define q where "q = (x - ?lo) / (?hi - ?lo)"
    have "0 \<le> q" and "q \<le> 1"
      using lo hi pos by (simp_all add: q_def field_simps)
    then have "0 \<le> q * 100" and "q * 100 \<le> 100"
      by linarith+
    then have "max 0 (min 100 (100 - q * 100)) = 100 - q * 100"
      and "max 0 (min 100 (q * 100)) = q * 100"
      by linarith+
    with False show ?thesis
      unfolding normalize_score_def Let_def q_def by simp
  qed
  then show "0 \<le> normalize_score (Some x) ?lo ?hi lower_is_better"
    and "normalize_score (Some x) ?lo ?hi lower_is_better \<le> 100"
    by (auto simp: normalize_score_def Let_def split: if_splits)
qed

text \<open>
  C2, as amended. Normalisation is min-max scaling, not a rank percentile. A column is first
  filled: a missing value becomes the median of the present ones, or 0 when none is present.
  Each value of the filled column then scores \<open>(value - min) / (max - min) * 100\<close> when higher
  is better and 100 minus that when lower is better, which lies between 0 and 100; when all
  values of the column are equal every row scores 50. \<^verbatim>\<open>normalize_score\<close> itself maps a
  missing value to 50.
\<close>

theorem normalization_is_min_max:
  fixes col lower_is_better i
  defines "xs \<equiv> fillna col"
  defines "lo \<equiv> Min (set (fillna col))" and "hi \<equiv> Max (set (fillna col))"
  assumes "i < length col"
  shows "normalize_column lower_is_better xs ! i =
           (if lo = hi then 50
            else if lower_is_better then 100 - (xs ! i - lo) / (hi - lo) * 100
            else (xs ! i - lo) / (hi - lo) * 100)
         \<and> 0 \<le> normalize_column lower_is_better xs ! i
         \<and> normalize_column lower_is_better xs ! i \<le> 100
         \<and> xs ! i = (case col ! i of
                       Some x \<Rightarrow> x
                     | None \<Rightarrow> if present col \<noteq> [] then median (present col) else 0)
         \<and> normalize_score None lo hi lower_is_better = 50"
proof -
  have i: "i < length xs"
    using assms by (simp add: length_fillna)
  then have mem: "xs ! i \<in> set xs" and ne: "xs \<noteq> []"
    by auto
  have nth: "normalize_column lower_is_better xs ! i =
               normalize_score (Some (xs ! i)) (Min (set xs)) (Max (set xs)) lower_is_better"
    using i ne by (simp add: normalize_column_def)
  have fill: "xs ! i = (case col ! i of
                       Some x \<Rightarrow> x
                     | None \<Rightarrow> if present col \<noteq> [] then median (present col) else 0)"
    unfolding xs_def using nth_fillna [OF assms(4)]
    by (simp add: fill_value_def split: option.splits)
  have none: "normalize_score None lo hi lower_is_better = 50"
    by (simp add: normalize_score_def)
  have lohi: "lo = Min (set xs)" "hi = Max (set xs)"
    by (simp_all add: lo_def hi_def xs_def)
  note in_col = normalize_score_in_column [OF mem, of lower_is_better, folded nth lohi]
  from in_col(1) in_col(2) in_col(3) fill none
  show ?thesis
    by (intro conjI)
qed

theorem normalization_is_min_max_witness:
  "normalize_column False (fillna [Some 0, None, Some 10, Some 4]) ! 1 = 40
   \<and> fillna [Some 0, None, Some 10, Some 4] ! 1 = 4
   \<and> normalize_column True (fillna [Some 7, Some 7]) ! 0 = 50"
proof -
  have a: "(1::nat) < length [Some (0::real), None, Some 10, Some 4]"
   and b: "(0::nat) < length [Some (7::real), Some 7]"
    by simp_all
  have v: "fillna [Some 0, None, Some 10, Some 4] = [0, 4, 10, 4]"
          "fillna [Some 7, Some 7] = [7, 7]"
    by code_simp+
  from normalization_is_min_max [OF a, of False] normalization_is_min_max [OF b, of True]
  show ?thesis
    unfolding v by simp
qed

text \<open>
  The claim as it is worded fails on the column 0, 1, 10: the engine scores it 0, 10, 100, the
  average-rank percentile would be 33.3, 66.7, 100. A missing value does not score 0 either:
  in the column 0, missing, 10, 4 it is filled with the median 4 and scores 40, and
  \<^verbatim>\<open>normalize_score\<close> maps a missing value to 50.
\<close>

theorem normalization_is_min_max_counterexample:
  "normalize_column False (fillna [Some 0, Some 1, Some 10]) = [0, 10, 100]
   \<and> spec_rank_percentile False [Some 0, Some 1, Some 10] = [100 / 3, 200 / 3, 100]
   \<and> normalize_column False (fillna [Some 0, Some 1, Some 10])
        \<noteq> spec_rank_percentile False [Some 0, Some 1, Some 10]
   \<and> normalize_column False (fillna [Some 0, None, Some 10, Some 4]) = [0, 40, 100, 40]
   \<and> normalize_column False (fillna [Some 0, None, Some 10, Some 4]) ! 1 \<noteq> 0
   \<and> normalize_score None 0 10 False = 50"
  by code_simp

subsection \<open>The orchestrator: disqualified rows\<close>

lemma count_list_distinct: "distinct xs \<Longrightarrow> x \<in> set xs \<Longrightarrow> count_list xs x = 1"
  by (induction xs) auto

lemma score_rows_member:
  assumes "s \<in> set (score_rows e df ws fcfDQMode)"
  shows "idx s < length (rows df)" and "data s = filled_row df (idx s)"
  using assms by (auto simp: score_rows_def)

lemma adjustments_member:
  assumes "s \<in> set (apply_sector_adjustments e xs)"
  shows "\<exists>t \<in> set xs. idx s = idx t \<and> data s = data t"
  using assms by (auto simp: apply_sector_adjustments_def split: if_splits)

lemma ranked_frame_member:
  assumes contract: "\<And>xs. mset (sort_values xs) = mset xs"
    and s: "s \<in> set (ranked_frame sort_values e df ws fcfDQMode)"
  shows "idx s < length (rows df)"
    and "data s = filled_row df (idx s)"
    and "\<not> fst (should_disqualify e (filled_row df (idx s)) fcfDQMode)"
proof -
  have "set (sort_values xs) = set xs" for xs
    using contract [of xs] by (rule mset_eq_setD)
  with s have "s \<in> set (apply_sector_adjustments e
                  (not_disqualified e fcfDQMode (score_rows e df ws fcfDQMode)))"
    by (simp add: ranked_frame_def)
  then obtain t where t: "t \<in> set (not_disqualified e fcfDQMode (score_rows e df ws fcfDQMode))"
    and same: "idx s = idx t" "data s = data t"
    using adjustments_member by blast
  from t have "t \<in> set (score_rows e df ws fcfDQMode)"
    and keep: "\<not> fst (should_disqualify e (data t) fcfDQMode)"
    by (simp_all add: not_disqualified_def)
  with score_rows_member [of t e df ws fcfDQMode] same
  show "idx s < length (rows df)" and "data s = filled_row df (idx s)"
    and "\<not> fst (should_disqualify e (filled_row df (idx s)) fcfDQMode)"
    by simp_all
qed

lemma disqualified_companies_score_rows:
  "disqualified_companies e fcfDQMode (score_rows e df ws fcfDQMode) =
     map (\<lambda>i. (raw_name (rows df ! i), snd (should_disqualify e (filled_row df i) fcfDQMode)))
         (filter (\<lambda>i. fst (should_disqualify e (filled_row df i) fcfDQMode))
                 [0 ..< length (rows df)])"
  by (simp add: disqualified_companies_def score_rows_def filter_map comp_def filled_row_def
        str_get_def)

text \<open>
  Whenever the orchestrator returns a report, for whatever table, philosophy and mode: the
  elements of the ranked output are made from the rows of the sorted working table (its first
  fifty) and from nothing else, so only those rows get a reported composite score and tier; no
  row of that table is one for which the gate returns true, whatever its composite score; and
  the list of disqualified companies holds, in the order of the table, one pair of name and
  reason for each row for which the gate returns true, so that such a row is absent from the
  ranked table and is listed exactly once. The sort is any function that returns a
  permutation of its argument.
\<close>

lemma report_excludes_disqualified_rows:
  assumes "\<And>xs. mset (sort_values xs) = mset xs"
    and "analyze_rankings sort_values e (Parsed df) philosophy fcfDQMode = Inr rep"
  shows "\<exists>phil. map_of PHILOSOPHIES philosophy = Some phil \<and>
          (let ranked = ranked_frame sort_values e df (weights phil) fcfDQMode;
               dq = (\<lambda>i. fst (should_disqualify e (filled_row df i) fcfDQMode));
               dq_idx = filter dq [0 ..< length (rows df)]
           in rankings rep =
                map (ranking_of e fcfDQMode) (zip [1 ..< Suc (length ranked)] (take 50 ranked))
            \<and> (\<forall>s \<in> set ranked.
                  idx s < length (rows df) \<and> data s = filled_row df (idx s) \<and> \<not> dq (idx s))
            \<and> disqualifiedCompanies rep =
                map (\<lambda>i. (raw_name (rows df ! i),
                          snd (should_disqualify e (filled_row df i) fcfDQMode))) dq_idx
            \<and> (\<forall>i < length (rows df).
                  dq i \<longrightarrow> i \<notin> idx ` set ranked \<and> count_list dq_idx i = 1))"
proof -
  from assms(2) obtain phil where phil: "map_of PHILOSOPHIES philosophy = Some phil"
    by (cases "map_of PHILOSOPHIES philosophy") (simp_all add: analyze_rankings_def)
  let ?ranked = "ranked_frame sort_values e df (weights phil) fcfDQMode"
  let ?dq = "\<lambda>i. fst (should_disqualify e (filled_row df i) fcfDQMode)"
  let ?dq_idx = "filter ?dq [0 ..< length (rows df)]"
  have mode: "fcfDQMode \<in> set valid_modes"
  proof (rule ccontr)
    assume "fcfDQMode \<notin> set valid_modes"
    with assms(2) phil show False
      by (simp add: analyze_rankings_def)
  qed
  have ne: "\<not> (TIERS_ENABLED e \<and>
                (?ranked = [] \<or> \<not> set tier_summary_columns \<subseteq> set (columns df)))"
  proof
    assume "TIERS_ENABLED e \<and>
              (?ranked = [] \<or> \<not> set tier_summary_columns \<subseteq> set (columns df))"
    with assms(2) phil mode show False
      by (simp add: analyze_rankings_def Let_def)
  qed
  from assms(2) phil mode ne
  have rep: "Inr rep = (Inr
                \<lparr>rankings = map (ranking_of e fcfDQMode)
                                    (zip [1 ..< Suc (length ?ranked)] (take 50 ?ranked)),
                 philosophy_id = philosophy,
                 philosophyDescription = description phil,
                 totalCompanies = length ?ranked,
                 disqualifiedCount =
                   length (disqualified_companies e fcfDQMode
                             (score_rows e df (weights phil) fcfDQMode)),
                 disqualifiedCompanies =
                   disqualified_companies e fcfDQMode (score_rows e df (weights phil) fcfDQMode),
                 sectorEnabled = SECTOR_ENABLED e,
                 tiersEnabled = TIERS_ENABLED e,
                 fcfDQMode_of = fcfDQMode\<rparr> :: error + report)"
    by (simp only: analyze_rankings_def Let_def option.case upload.case if_False if_True not_not
          simp_thms)
  then have rep': "rep =
                \<lparr>rankings = map (ranking_of e fcfDQMode)
                                    (zip [1 ..< Suc (length ?ranked)] (take 50 ?ranked)),
                 philosophy_id = philosophy,
                 philosophyDescription = description phil,
                 totalCompanies = length ?ranked,
                 disqualifiedCount =
                   length (disqualified_companies e fcfDQMode
                             (score_rows e df (weights phil) fcfDQMode)),
                 disqualifiedCompanies =
                   disqualified_companies e fcfDQMode (score_rows e df (weights phil) fcfDQMode),
                 sectorEnabled = SECTOR_ENABLED e,
                 tiersEnabled = TIERS_ENABLED e,
                 fcfDQMode_of = fcfDQMode\<rparr>"
    by (simp only: sum.inject)
  have a: "rankings rep =
             map (ranking_of e fcfDQMode) (zip [1 ..< Suc (length ?ranked)] (take 50 ?ranked))"
    by (subst rep') simp
  have b: "\<forall>s \<in> set ?ranked.
             idx s < length (rows df) \<and> data s = filled_row df (idx s) \<and> \<not> ?dq (idx s)"
    using ranked_frame_member [OF assms(1)] by blast
  have c: "disqualifiedCompanies rep =
             map (\<lambda>i. (raw_name (rows df ! i),
                       snd (should_disqualify e (filled_row df i) fcfDQMode))) ?dq_idx"
    by (subst rep') (simp add: disqualified_companies_score_rows)
  have d: "\<forall>i < length (rows df). ?dq i \<longrightarrow> i \<notin> idx ` set ?ranked \<and> count_list ?dq_idx i = 1"
  proof (intro allI impI)
    fix i assume i: "i < length (rows df)" and dqi: "?dq i"
    then have "i \<in> set ?dq_idx" and "distinct ?dq_idx"
      by simp_all
    then have "count_list ?dq_idx i = 1"
      by (rule count_list_distinct [rotated])
    moreover have "i \<notin> idx ` set ?ranked"
      using b dqi by blast
    ultimately show "i \<notin> idx ` set ?ranked \<and> count_list ?dq_idx i = 1" by simp
  qed
  show ?thesis
    unfolding Let_def
    by (rule exI [of _ phil]) (intro conjI phil a b c d)
qed

lemma length_ranked_frame:
  assumes "\<And>xs. mset (sort_values xs) = mset xs"
  shows "length (ranked_frame sort_values e df ws fcfDQMode) =
           length (filter (\<lambda>i. \<not> fst (should_disqualify e (filled_row df i) fcfDQMode))
                          [0 ..< length (rows df)])"
proof -
  have "length (sort_values xs) = length xs" for xs
    using assms [of xs] by (metis size_mset)
  then show ?thesis
    by (simp add: ranked_frame_def apply_sector_adjustments_def not_disqualified_def
          score_rows_def filter_map comp_def)
qed


text \<open>
  A report is returned when the request is valid, a row passes the gate and, with the tier
  module loaded, the table has the columns that the tier summary reads.
\<close>

lemma analyze_rankings_reports:
  assumes contract: "\<And>xs. mset (sort_values xs) = mset xs"
    and phil: "map_of PHILOSOPHIES philosophy = Some phil"
    and mode: "fcfDQMode \<in> set valid_modes"
    and i: "i < length (rows df)"
    and keep: "\<not> fst (should_disqualify e (filled_row df i) fcfDQMode)"
    and cols: "TIERS_ENABLED e \<longrightarrow> set tier_summary_columns \<subseteq> set (columns df)"
  shows "\<exists>rep. analyze_rankings sort_values e (Parsed df) philosophy fcfDQMode = Inr rep"
proof -
  have "i \<in> set (filter (\<lambda>i. \<not> fst (should_disqualify e (filled_row df i) fcfDQMode))
                        [0 ..< length (rows df)])"
    using i keep by simp
  then have "length (ranked_frame sort_values e df (weights phil) fcfDQMode) \<noteq> 0"
    unfolding length_ranked_frame [OF contract] by (metis length_0_conv empty_iff empty_set)
  then have "ranked_frame sort_values e df (weights phil) fcfDQMode \<noteq> []"
    by simp
  with phil mode cols show ?thesis
    by (simp add: analyze_rankings_def Let_def)
qed

lemma example_sort_permutes: "mset (example_sort xs) = mset xs"
  by (simp add: example_sort_def)

lemma buffett_registered:
  "map_of PHILOSOPHIES ''buffett'' =
     Some \<lparr>display_name = ''Warren Buffett'',
        weights = [(''fcf'', 0.28), (''roe'', 0.20), (''roce'', 0.16), (''pe_ratio'', 0.08),
                   (''debt_equity'', 0.14), (''opm'', 0.10), (''profit_growth_3yr'', 0.03),
                   (''sales_growth_5yr'', 0.01)],
        description = ''Focus on quality companies with strong ROE, low debt, excellent cash flow, and reasonable valuations''\<rparr>"
  by (simp add: PHILOSOPHIES_def)

lemma example_gate:
  "should_disqualify example_env (filled_row example_df 0) ''financials_only_off'' = (False, [])"
  "should_disqualify example_env (filled_row example_df 1) ''financials_only_off''
     = (True, ''Massive cash burn: FCF # Cr (unsustainable)'')"
  "should_disqualify example_env (filled_row example_df 2) ''financials_only_off'' = (False, [])"
  by code_simp+

lemma example_rows:
  "length (rows example_df) = 3" "raw_name (rows example_df ! 1) = ''Beta Ltd''"
  "set tier_summary_columns \<subseteq> set (columns example_df)"
  by (simp_all add: example_df_def mk_raw_def tier_summary_columns_def)

text \<open>
  On the three companies of the specification's scenario a report is returned: the second
  company is listed as disqualified and is absent from the ranked table.
\<close>

lemma report_excludes_disqualified_rows_example:
  "\<exists>rep. analyze_rankings example_sort example_env (Parsed example_df) ''buffett''
            ''financials_only_off'' = Inr rep
     \<and> disqualifiedCompanies rep = [(''Beta Ltd'', ''Massive cash burn: FCF # Cr (unsustainable)'')]
     \<and> 1 \<notin> idx ` set (ranked_frame example_sort example_env example_df
                          [(''fcf'', 0.28), (''roe'', 0.20), (''roce'', 0.16), (''pe_ratio'', 0.08),
                           (''debt_equity'', 0.14), (''opm'', 0.10), (''profit_growth_3yr'', 0.03),
                           (''sales_growth_5yr'', 0.01)] ''financials_only_off'')"
proof -
  have "\<exists>rep. analyze_rankings example_sort example_env (Parsed example_df) ''buffett''
              ''financials_only_off'' = Inr rep"
    by (rule analyze_rankings_reports [OF example_sort_permutes buffett_registered, of _ 0])
       (simp_all add: valid_modes_def example_rows example_gate)
  then obtain rep where rep: "analyze_rankings example_sort example_env (Parsed example_df)
      ''buffett'' ''financials_only_off'' = Inr rep" ..
  have upt: "[0 ..< length (rows example_df)] = [0, 1, 2]"
    by (simp add: example_rows upt_rec)
  from report_excludes_disqualified_rows [OF example_sort_permutes rep]
  have "disqualifiedCompanies rep = [(''Beta Ltd'', ''Massive cash burn: FCF # Cr (unsustainable)'')]
     \<and> 1 \<notin> idx ` set (ranked_frame example_sort example_env example_df
                          [(''fcf'', 0.28), (''roe'', 0.20), (''roce'', 0.16), (''pe_ratio'', 0.08),
                           (''debt_equity'', 0.14), (''opm'', 0.10), (''profit_growth_3yr'', 0.03),
                           (''sales_growth_5yr'', 0.01)] ''financials_only_off'')"
    unfolding buffett_registered Let_def upt
    by (simp add: example_gate example_gate [unfolded One_nat_def] example_rows
          example_rows [unfolded One_nat_def])
  with rep show ?thesis by blast
qed

lemma burning_row_disqualified:
  "fst (should_disqualify example_env (filled_row burning_df 0) ''financials_only_off'')"
  by code_simp

lemma burning_frame_empty:
  "ranked_frame example_sort example_env burning_df ws ''financials_only_off'' = []"
proof -
  have "[0 ..< length (rows burning_df)] = [0]"
    by (simp add: burning_df_def)
  then have "length (ranked_frame example_sort example_env burning_df ws ''financials_only_off'') = 0"
    unfolding length_ranked_frame [OF example_sort_permutes]
    using burning_row_disqualified by simp
  then show ?thesis by simp
qed

text \<open>
  C3. Every row for which the gate returns true is to be absent from the ranked output, to
  get no reported score or tier, and to appear exactly once, with its reason, in the list of
  disqualified companies. The orchestrator does this whenever it returns a report, but for
  some tables it returns none. On the table whose only row burns cash (FCF -600, not a
  financial company, mode financials_only_off, tier module loaded) the gate returns true for
  the row, no row is left for the tier stage, and the request ends in an exception that
  nothing catches: there is no list of disqualified companies, so the row and its reason are
  reported nowhere.
\<close>

theorem no_report_when_every_row_is_disqualified:
  "fst (should_disqualify example_env (filled_row burning_df 0) ''financials_only_off'')
   \<and> analyze_rankings example_sort example_env (Parsed burning_df) ''buffett''
        ''financials_only_off'' = Inl UnhandledException"
proof -
  have "TIERS_ENABLED example_env"
    by (simp add: example_env_def)
  then have "analyze_rankings example_sort example_env (Parsed burning_df) ''buffett''
          ''financials_only_off'' = Inl UnhandledException"
    by (simp add: analyze_rankings_def buffett_registered valid_modes_def Let_def
          burning_frame_empty)
  with burning_row_disqualified show ?thesis by (rule conjI)
qed

subsection \<open>The orchestrator: configuration errors\<close>




subsection \<open>The orchestrator: the score of a ranked row\<close>

text \<open>
  The score by which a row is ranked and which is reported for it is the composite score of
  the row under the weights of the request, passed through the sector adjustment when the
  sector module is available.
\<close>

lemma ranked_frame_composite_score:
  assumes contract: "\<And>xs. mset (sort_values xs) = mset xs"
    and s: "s \<in> set (ranked_frame sort_values e df ws fcfDQMode)"
  shows "composite_score s =
          (let base = calculate_composite_score e (filled_row df (idx s)) ws
                        (normalized_row df (idx s)) fcfDQMode
           in if SECTOR_ENABLED e
                then fst (adjust_score_for_sector base (filled_row df (idx s))
                            (get_sector_from_name (raw_name (rows df ! idx s))))
              else base)"
proof -
  have "set (sort_values xs) = set xs" for xs
    using contract [of xs] by (rule mset_eq_setD)
  with s have "s \<in> set (apply_sector_adjustments e
                  (not_disqualified e fcfDQMode (score_rows e df ws fcfDQMode)))"
    by (simp add: ranked_frame_def)
  moreover have "str_get (name (filled_row df i)) = raw_name (rows df ! i)" for i
    by (simp add: filled_row_def str_get_def)
  ultimately show ?thesis
    by (auto simp: apply_sector_adjustments_def not_disqualified_def score_rows_def Let_def
          split: if_splits)
qed

end
